theory Spec2Isabelle
  imports Main
begin

section \<open>JavaScript values read by the adapter\<close>

text \<open>
  A value that may be \<^verbatim>\<open>null\<close> or \<^verbatim>\<open>undefined\<close>. The source tells the two apart
  (\<^verbatim>\<open>item.height !== null\<close> is strict), so the model does too.
\<close>

datatype 'a nullish = JsNull | JsUndefined | JsVal 'a

text \<open>\<^verbatim>\<open>x ?? d\<close>\<close>

fun nullish_or :: "'a nullish \<Rightarrow> 'a \<Rightarrow> 'a" where
  "nullish_or (JsVal v) d = v"
| "nullish_or JsNull d = d"
| "nullish_or JsUndefined d = d"

text \<open>Truthiness of an object reference, and of a boolean flag that may be missing.\<close>

fun truthy :: "'a nullish \<Rightarrow> bool" where
  "truthy (JsVal v) = True"
| "truthy JsNull = False"
| "truthy JsUndefined = False"

fun truthy_flag :: "bool nullish \<Rightarrow> bool" where
  "truthy_flag (JsVal b) = b"
| "truthy_flag JsNull = False"
| "truthy_flag JsUndefined = False"

text \<open>
  Numbers: track ids, dimensions and bandwidths are integers, and the adapter only copies
  and prints them. \<^verbatim>\<open>toString()\<close> of an integer is its decimal notation.
\<close>

definition digit_char :: "nat \<Rightarrow> char" where
  "digit_char d =
     (if d = 0 then CHR ''0'' else if d = 1 then CHR ''1'' else if d = 2 then CHR ''2''
      else if d = 3 then CHR ''3'' else if d = 4 then CHR ''4'' else if d = 5 then CHR ''5''
      else if d = 6 then CHR ''6'' else if d = 7 then CHR ''7'' else if d = 8 then CHR ''8''
      else CHR ''9'')"

function string_of_nat :: "nat \<Rightarrow> string" where
  "string_of_nat n =
     (if n < 10 then [digit_char n] else string_of_nat (n div 10) @ [digit_char (n mod 10)])"
  by pat_completeness auto
termination
  by (relation "measure (\<lambda>n. n)") auto

declare string_of_nat.simps [simp del]

definition toString :: "int \<Rightarrow> string" where
  "toString i = (if i < 0 then CHR ''-'' # string_of_nat (nat (- i)) else string_of_nat (nat i))"

text \<open>\<^verbatim>\<open>x?.toString()\<close>\<close>

fun optional_toString :: "int nullish \<Rightarrow> string nullish" where
  "optional_toString (JsVal n) = JsVal (toString n)"
| "optional_toString JsNull = JsUndefined"
| "optional_toString JsUndefined = JsUndefined"

section \<open>Data of the wrapped library and of the host\<close>

text \<open>\<^verbatim>\<open>shaka.extern.Track\<close>, the fields the adapter reads.\<close>

record Track =
  track_id :: "int nullish"
  track_width :: "int nullish"
  track_height :: "int nullish"
  track_bandwidth :: "int nullish"
  track_videoCodec :: "string nullish"

text \<open>The quality object built in \<^verbatim>\<open>#onTracksChanged\<close>.\<close>

record VideoQuality =
  quality_id :: string
  quality_width :: int
  quality_height :: int
  quality_bitrate :: int
  quality_codec :: "string nullish"
  quality_index :: nat

text \<open>events.ts: the event names, with \<^verbatim>\<open>Object.values\<close> in declaration order.\<close>

datatype ShakaLibEventName =
  ABR_STATUS_CHANGED | ERROR | TRACKS_CHANGED | LOADED | MANIFEST_UPDATED | VARIANT_CHANGED
| ADAPTATION

fun event_name_value :: "ShakaLibEventName \<Rightarrow> string" where
  "event_name_value ABR_STATUS_CHANGED = ''abrstatuschanged''"
| "event_name_value ERROR = ''error''"
| "event_name_value TRACKS_CHANGED = ''trackschanged''"
| "event_name_value LOADED = ''loaded''"
| "event_name_value MANIFEST_UPDATED = ''manifestupdated''"
| "event_name_value VARIANT_CHANGED = ''variantchanged''"
| "event_name_value ADAPTATION = ''adaptation''"

definition ShakaLibEventName_values :: "ShakaLibEventName list" where
  "ShakaLibEventName_values =
     [ABR_STATUS_CHANGED, ERROR, TRACKS_CHANGED, LOADED, MANIFEST_UPDATED, VARIANT_CHANGED,
      ADAPTATION]"

text \<open>
  An event object as a handler receives it (\<^verbatim>\<open>event: any\<close>): its type and the fields of
  the interfaces of events.ts; a field an event does not have reads as \<^verbatim>\<open>undefined\<close>.
\<close>

record ShakaLibEvent =
  event_type :: string
  event_newStatus :: "bool nullish"
  event_isLive :: "bool nullish"
  event_oldTrack :: "Track nullish"
  event_newTrack :: "Track nullish"

text \<open>
  A value taken for the player constructor, an error object, a thrown value (the engine's
  own \<^verbatim>\<open>TypeError\<close> and \<^verbatim>\<open>ReferenceError\<close> apart).
\<close>

datatype ShakaConstructor = ShakaConstructor nat

datatype js_Error = JsError (error_name: string) (message: string)

datatype thrown =
  ThrownError js_Error | ThrownTypeError | ThrownReferenceError | ThrownValue nat

type_synonym HTMLVideoElement = nat

datatype event_detail =
  NoDetail
| EventDetail ShakaLibEvent
| CtorDetail ShakaConstructor
| ErrorDetail js_Error
| InstanceDetail nat

text \<open>\<^verbatim>\<open>new DOMEvent(type, { detail, trigger })\<close>\<close>

datatype DOMEvent = DOMEvent (dom_type: string) (dom_detail: event_detail) (dom_trigger: "DOMEvent option")

text \<open>A player configuration: the own properties of the object, in order.\<close>

datatype config_value = ConfigBool bool | ConfigNumber int | ConfigString string
  | ConfigObject "(string \<times> config_value) list"

type_synonym PlayerConfiguration = "(string \<times> config_value) list"

datatype notify_detail =
  StreamType string
| MediaError string nat "js_Error option"
| ProviderSetup

text \<open>A media source; \<^verbatim>\<open>src.src\<close> is a string or some object.\<close>

datatype src_value = SrcString string | SrcObject

record Src =
  src :: src_value
  src_type :: string

text \<open>
  Every call the adapter makes on the host context, on the player instance (named by its
  number), on the media element and on the video provider it extends, in the order made.
\<close>

datatype action =
  PolyfillInstallAll
| New ShakaConstructor nat
| InstanceCallback nat nat
| Attach nat "HTMLVideoElement option"
| Configure nat PlayerConfiguration
| SelectVariantTrack nat Track
| Load nat string
| Destroy nat
| PlayerDispatch DOMEvent
| MediaDispatch HTMLVideoElement DOMEvent
| Notify string notify_detail "DOMEvent option"
| QualitiesSetAuto bool DOMEvent
| QualitiesAdd VideoQuality DOMEvent
| QualitiesSelect "VideoQuality option" bool DOMEvent
| SuperSetup
| RemoveSource
| SetPreload string
| AppendSource Src
| SetCurrentSrc Src

text \<open>
  The player instance: who built it, and what the library answers to
  \<^verbatim>\<open>getVariantTracks()\<close> and \<^verbatim>\<open>getMediaElement()\<close> at the moment.
\<close>

record ShakaPlayer =
  player_id :: nat
  player_ctor :: ShakaConstructor
  getVariantTracks :: "Track list"
  getMediaElement :: "HTMLVideoElement option"

text \<open>
  What \<^verbatim>\<open>#instance\<close> holds once \<^verbatim>\<open>new ctor()\<close> has run: a player, or some other object
  (named by its number) that has none of a player's methods, as when the value taken for
  the constructor is a loader declared with \<^verbatim>\<open>function\<close> and \<^verbatim>\<open>new\<close> gives its promise.
\<close>

datatype instance_value = IsPlayer ShakaPlayer | OtherObject nat

text \<open>
  What \<^verbatim>\<open>new ctor()\<close> does: it gives a player, it gives some other object, or it throws
  (the value is no constructor).
\<close>

datatype new_outcome = NewPlayer | NewOther | NewThrows

text \<open>
  How a call ends: it returns, or it throws; either way with the state it has reached.
\<close>

datatype 's outcome = Done 's | Threw thrown 's

fun state_of :: "'s outcome \<Rightarrow> 's" where
  "state_of (Done s) = s"
| "state_of (Threw err s) = s"

text \<open>The listeners the controller binds.\<close>

datatype handler =
  DispatchShakaEvent | OnError | OnManifestUpdated | OnLoaded | OnTracksChanged
| OnVariantChanged

text \<open>
  The host's media context as the adapter reads it: \<^verbatim>\<open>$state.canPlay()\<close>,
  \<^verbatim>\<open>$state.source\<close>, \<^verbatim>\<open>qualities.auto\<close>, \<^verbatim>\<open>qualities.selected\<close>, \<^verbatim>\<open>qualities.getById\<close>;
  whether the enable-auto hook is installed and how many \<^verbatim>\<open>change\<close> listeners are bound on
  the qualities list; the log of calls; and the number of player instances built so far,
  which names the next one. The host's own reactions to the calls are not part of the
  adapter: what it reads is read as it stands. The host player is taken to be there (setup
  itself calls \<^verbatim>\<open>this.#ctx.player.dispatch\<close> unguarded). Logger calls write to the console
  only and are left out.
\<close>

record MediaContext =
  state_canPlay :: bool
  state_source :: "Src option"
  qualities_auto :: bool
  qualities_selected :: "VideoQuality option"
  qualities_getById :: "string \<Rightarrow> VideoQuality option"
  qualities_enableAuto :: bool
  qualities_change_listeners :: nat
  trace :: "action list"
  instances_created :: nat

text \<open>
  types.ts: the configured library is a URL, nothing, or an object. Of an object the loader
  looks at its \<^verbatim>\<open>prototype\<close>, at whether it has a \<^verbatim>\<open>Player\<close> property, and at what calling
  it gives; \<open>self_ctor\<close> is the object itself when it is taken for a constructor.
\<close>

datatype prototype_value = NoPrototype | FunctionObject | OtherPrototype

record js_object =
  self_ctor :: ShakaConstructor
  prototype :: prototype_value
  Player :: "ShakaConstructor option"

datatype js_value = ValUndefined | ValObject js_object

text \<open>\<^verbatim>\<open>(await loader())?.default\<close>: the call throws or rejects, or gives this value.\<close>

datatype import_outcome = ImportThrows thrown | ImportDefault js_value

datatype ShakaLibrary =
  LibString string
| LibUndefined
| LibObject js_object import_outcome

section \<open>The environment\<close>

text \<open>
  The global \<^verbatim>\<open>shaka\<close> (\<^verbatim>\<open>window.shaka\<close>): missing, with a \<^verbatim>\<open>Player\<close> that is not a
  function, or with the \<^verbatim>\<open>Player\<close> constructor and what its \<^verbatim>\<open>isBrowserSupported()\<close> says.
  Only the remote script installs it: types.ts is imported for its types alone. A global
  that is there is taken to have \<^verbatim>\<open>polyfill\<close> and \<^verbatim>\<open>util.EventManager\<close>.
\<close>

datatype shaka_global = ShakaMissing | PlayerNotFunction | PlayerFunction ShakaConstructor bool

text \<open>
  The build flags, and what the code takes from the host's utilities and from the browser:
  \<^verbatim>\<open>isHLSSupported()\<close>, \<^verbatim>\<open>isDASHSupported()\<close>, \<^verbatim>\<open>coerceToError\<close>, whether \<^verbatim>\<open>loadScript(url)\<close>
  rejects, \<^verbatim>\<open>window.shaka\<close> once loading is over, whether \<^verbatim>\<open>import('./provider')\<close> rejects,
  and what \<^verbatim>\<open>new\<close> does on a value taken for the constructor.
\<close>

record env =
  SERVER :: bool
  DEV :: bool
  isHLSSupported :: bool
  isDASHSupported :: bool
  coerceToError :: "thrown \<Rightarrow> js_Error"
  loadScript :: "string \<Rightarrow> thrown option"
  window_shaka :: shaka_global
  import_provider :: "thrown option"
  new_result :: "ShakaConstructor \<Rightarrow> new_outcome"

section \<open>shaka.ts: ShakaController\<close>

record ShakaController =
  video :: "HTMLVideoElement option"
  ctx :: MediaContext
  shaka_instance :: "instance_value option"
  eventManager :: "(ShakaLibEventName \<times> handler) list option"
  callbacks :: "nat list"
  config :: PlayerConfiguration

text \<open>
  The fields of the class; a callback is named by a number, and \<^verbatim>\<open>#callbacks\<close> keeps the
  insertion order of the Set. \<^verbatim>\<open>#stopLiveSync\<close> is never set and is left out. The
  constructor: no instance, no event manager, no callbacks, an empty config.
\<close>

definition ShakaController_new :: "HTMLVideoElement option \<Rightarrow> MediaContext \<Rightarrow> ShakaController" where
  "ShakaController_new v c =
     \<lparr>video = v, ctx = c, shaka_instance = None, eventManager = None, callbacks = [],
      config = []\<rparr>"

definition call :: "action \<Rightarrow> ShakaController \<Rightarrow> ShakaController" where
  "call a c = c\<lparr>ctx := (ctx c)\<lparr>trace := trace (ctx c) @ [a]\<rparr>\<rparr>"

text \<open>
  \<^verbatim>\<open>toDOMEventType\<close>; \<open>camelToKebabCase\<close> is maverick.js's and is a parameter throughout.
\<close>

definition toDOMEventType :: "(string \<Rightarrow> string) \<Rightarrow> string \<Rightarrow> string" where
  "toDOMEventType camelToKebabCase type = ''shaka-'' @ camelToKebabCase type"

definition createDOMEvent :: "(string \<Rightarrow> string) \<Rightarrow> ShakaLibEvent \<Rightarrow> DOMEvent" where
  "createDOMEvent camelToKebabCase v =
     DOMEvent (toDOMEventType camelToKebabCase (event_type v)) (EventDetail v) None"

definition dispatchShakaEvent :: "(string \<Rightarrow> string) \<Rightarrow> ShakaLibEvent \<Rightarrow> ShakaController \<Rightarrow> ShakaController" where
  "dispatchShakaEvent camelToKebabCase v c = call (PlayerDispatch (createDOMEvent camelToKebabCase v)) c"

text \<open>\<^verbatim>\<open>#onError\<close> only logs.\<close>

definition onError :: "ShakaLibEvent \<Rightarrow> ShakaController \<Rightarrow> ShakaController" where
  "onError event c = c"

definition onManifestUpdated :: "(string \<Rightarrow> string) \<Rightarrow> ShakaLibEvent \<Rightarrow> ShakaController \<Rightarrow> ShakaController" where
  "onManifestUpdated camelToKebabCase event c =
     (let isLive = event_isLive event;
          trigger = createDOMEvent camelToKebabCase event;
          c1 = call (QualitiesSetAuto True trigger) c
      in call (Notify ''stream-type-change''
                (StreamType (if truthy_flag isLive then ''live'' else ''on-demand''))
                (Some trigger)) c1)"

text \<open>
  A handler that throws does so before it has called anything, so it gives the thrown
  value alone. Calling a method on an instance that is no player is a TypeError.
\<close>

definition onLoaded :: "(string \<Rightarrow> string) \<Rightarrow> ShakaLibEvent \<Rightarrow> ShakaController \<Rightarrow> thrown + ShakaController" where
  "onLoaded camelToKebabCase event c =
     (case shaka_instance c of
        None \<Rightarrow> Inr c
      | Some i \<Rightarrow>
          if state_canPlay (ctx c) then Inr c
          else (let trigger = createDOMEvent camelToKebabCase event
                in case i of
                     OtherObject n \<Rightarrow> Inl ThrownTypeError
                   | IsPlayer p \<Rightarrow>
                       (case getMediaElement p of
                          None \<Rightarrow> Inr c
                        | Some media \<Rightarrow>
                            Inr (call (MediaDispatch media
                                         (DOMEvent ''canplay'' NoDetail (Some trigger))) c))))"

text \<open>The object literal of \<^verbatim>\<open>#onTracksChanged\<close>.\<close>

definition quality_of :: "Track \<Rightarrow> nat \<Rightarrow> VideoQuality" where
  "quality_of item index =
     \<lparr>quality_id = nullish_or (optional_toString (track_id item))
                     (''dash-bitrate-'' @ string_of_nat index),
      quality_width = nullish_or (track_width item) 0,
      quality_height = nullish_or (track_height item) 0,
      quality_bitrate = nullish_or (track_bandwidth item) 0,
      quality_codec = track_videoCodec item,
      quality_index = index\<rparr>"

text \<open>\<^verbatim>\<open>forEach((item, index) => ...)\<close> from index \<open>i\<close> on.\<close>

fun add_qualities :: "DOMEvent \<Rightarrow> nat \<Rightarrow> Track list \<Rightarrow> ShakaController \<Rightarrow> ShakaController" where
  "add_qualities trigger i [] c = c"
| "add_qualities trigger i (item # items) c =
     add_qualities trigger (Suc i) items (call (QualitiesAdd (quality_of item i) trigger) c)"

text \<open>\<^verbatim>\<open>this.#instance!\<close> on no instance is a TypeError at the call.\<close>

definition onTracksChanged :: "(string \<Rightarrow> string) \<Rightarrow> ShakaLibEvent \<Rightarrow> ShakaController \<Rightarrow> thrown + ShakaController" where
  "onTracksChanged camelToKebabCase event c =
     (case shaka_instance c of
        None \<Rightarrow> Inl ThrownTypeError
      | Some (OtherObject n) \<Rightarrow> Inl ThrownTypeError
      | Some (IsPlayer p) \<Rightarrow>
          (let variants = getVariantTracks p;
               trigger = createDOMEvent camelToKebabCase event
           in Inr (add_qualities trigger 0
                     (filter (\<lambda>item. track_height item \<noteq> JsNull) variants) c)))"

text \<open>\<^verbatim>\<open>newTrack.id.toString()\<close> on a missing id is a TypeError before any call.\<close>

definition onVariantChanged :: "(string \<Rightarrow> string) \<Rightarrow> ShakaLibEvent \<Rightarrow> ShakaController \<Rightarrow> thrown + ShakaController" where
  "onVariantChanged camelToKebabCase event c =
     (let newTrack = event_newTrack event
      in if truthy newTrack then
           (case newTrack of
              JsVal t \<Rightarrow>
                (case track_id t of
                   JsVal n \<Rightarrow>
                     (let quality = qualities_getById (ctx c) (toString n);
                          trigger = createDOMEvent camelToKebabCase event
                      in Inr (call (QualitiesSelect quality True trigger) c))
                 | _ \<Rightarrow> Inl ThrownTypeError)
            | _ \<Rightarrow> Inr c)
         else Inr c)"

definition abr_config :: "bool \<Rightarrow> PlayerConfiguration" where
  "abr_config b = [(''abr'', ConfigObject [(''enabled'', ConfigBool b)])]"

text \<open>\<^verbatim>\<open>this.#instance?.configure(...)\<close>\<close>

definition enableAutoQuality :: "ShakaController \<Rightarrow> thrown + ShakaController" where
  "enableAutoQuality c =
     (case shaka_instance c of
        None \<Rightarrow> Inr c
      | Some (OtherObject n) \<Rightarrow> Inl ThrownTypeError
      | Some (IsPlayer p) \<Rightarrow> Inr (call (Configure (player_id p) (abr_config True)) c))"

definition disableAutoQuality :: "ShakaController \<Rightarrow> thrown + ShakaController" where
  "disableAutoQuality c =
     (case shaka_instance c of
        None \<Rightarrow> Inr c
      | Some (OtherObject n) \<Rightarrow> Inl ThrownTypeError
      | Some (IsPlayer p) \<Rightarrow> Inr (call (Configure (player_id p) (abr_config False)) c))"

definition selected_id :: "VideoQuality option \<Rightarrow> string nullish" where
  "selected_id q = (case q of None \<Rightarrow> JsUndefined | Some s \<Rightarrow> JsVal (quality_id s))"

definition onUserQualityChange :: "ShakaController \<Rightarrow> thrown + ShakaController" where
  "onUserQualityChange c =
     (let qualities = ctx c
      in case shaka_instance c of
           None \<Rightarrow> Inr c
         | Some i \<Rightarrow>
             if qualities_auto qualities \<or> qualities_selected qualities = None then Inr c
             else (case disableAutoQuality c of
                     Inl err \<Rightarrow> Inl err
                   | Inr c1 \<Rightarrow>
                       (case i of
                          OtherObject n \<Rightarrow> Inl ThrownTypeError
                        | IsPlayer p \<Rightarrow>
                            (let track = find (\<lambda>t. optional_toString (track_id t)
                                                    = selected_id (qualities_selected qualities))
                                           (getVariantTracks p)
                             in case track of
                                  None \<Rightarrow> Inr c1
                                | Some t \<Rightarrow> Inr (call (SelectVariantTrack (player_id p) t) c1)))))"

text \<open>\<^verbatim>\<open>#callbacks\<close> is a Set: adding twice keeps one, iteration is in insertion order.\<close>

definition onInstance :: "nat \<Rightarrow> ShakaController \<Rightarrow> ShakaController" where
  "onInstance callback c =
     c\<lparr>callbacks := (if callback \<in> set (callbacks c) then callbacks c
                      else callbacks c @ [callback])\<rparr>"

definition onInstance_dispose :: "nat \<Rightarrow> ShakaController \<Rightarrow> ShakaController" where
  "onInstance_dispose callback c = c\<lparr>callbacks := removeAll callback (callbacks c)\<rparr>"

definition loadSource :: "Src \<Rightarrow> ShakaController \<Rightarrow> thrown + ShakaController" where
  "loadSource s c =
     (case src s of
        SrcObject \<Rightarrow> Inr c
      | SrcString url \<Rightarrow>
          (case shaka_instance c of
             None \<Rightarrow> Inr c
           | Some (OtherObject n) \<Rightarrow> Inl ThrownTypeError
           | Some (IsPlayer p) \<Rightarrow> Inr (call (Load (player_id p) url) c)))"

definition destroy :: "ShakaController \<Rightarrow> thrown + ShakaController" where
  "destroy c =
     (case shaka_instance c of
        None \<Rightarrow> Inr (c\<lparr>shaka_instance := None\<rparr>)
      | Some (OtherObject n) \<Rightarrow> Inl ThrownTypeError
      | Some (IsPlayer p) \<Rightarrow> Inr ((call (Destroy (player_id p)) c)\<lparr>shaka_instance := None\<rparr>))"

text \<open>\<^verbatim>\<open>this.#eventManager.listen(this.#instance, event, listener)\<close> on a player.\<close>

definition listen :: "ShakaLibEventName \<Rightarrow> handler \<Rightarrow> ShakaController \<Rightarrow> ShakaController" where
  "listen event listener c =
     c\<lparr>eventManager := map_option (\<lambda>ls. ls @ [(event, listener)]) (eventManager c)\<rparr>"

text \<open>
  \<^verbatim>\<open>setup\<close>. The bare \<^verbatim>\<open>shaka\<close> of its first line is a ReferenceError where the global is
  missing, before anything is done. \<^verbatim>\<open>new ctor()\<close> may throw, which leaves the instance as
  it was. Where it gives an object that is no player, that object is stored, the event
  manager is made, and the first \<^verbatim>\<open>listen\<close> throws, there being no \<^verbatim>\<open>addEventListener\<close> to
  call: no callback runs and nothing is attached or configured. Otherwise the instance is
  a player that has loaded nothing and is attached to nothing, and setup runs to its end.
\<close>

definition ShakaController_setup :: "env \<Rightarrow> ShakaConstructor \<Rightarrow> ShakaController \<Rightarrow> ShakaController outcome" where
  "ShakaController_setup e ctor c0 =
     (case window_shaka e of
        ShakaMissing \<Rightarrow> Threw ThrownReferenceError c0
      | _ \<Rightarrow>
          (let c1 = call PolyfillInstallAll c0;
               i = instances_created (ctx c1)
           in case new_result e ctor of
                NewThrows \<Rightarrow> Threw ThrownTypeError c1
              | NewOther \<Rightarrow>
                  (let c2 = (call (New ctor i) c1)\<lparr>shaka_instance := Some (OtherObject i)\<rparr>;
                       c2' = c2\<lparr>ctx := (ctx c2)\<lparr>instances_created := Suc i\<rparr>\<rparr>;
                       c3 = c2'\<lparr>eventManager := Some []\<rparr>
                   in Threw ThrownTypeError c3)
              | NewPlayer \<Rightarrow>
                  (let p = \<lparr>player_id = i, player_ctor = ctor, getVariantTracks = [],
                            getMediaElement = None\<rparr>;
                       c2 = (call (New ctor i) c1)\<lparr>shaka_instance := Some (IsPlayer p)\<rparr>;
                       c2' = c2\<lparr>ctx := (ctx c2)\<lparr>instances_created := Suc i\<rparr>\<rparr>;
                       c3 = c2'\<lparr>eventManager := Some []\<rparr>;
                       c4 = foldl (\<lambda>c event. listen event DispatchShakaEvent c) c3
                              ShakaLibEventName_values;
                       c5 = listen ERROR OnError c4;
                       c6 = foldl (\<lambda>c callback. call (InstanceCallback callback i) c) c5
                              (callbacks c5);
                       c7 = call (Attach i (video c6)) c6;
                       c8 = call (PlayerDispatch
                                    (DOMEvent ''shaka-instance'' (InstanceDetail i) None)) c7;
                       c9 = call (Configure i (config c8)) c8;
                       c10 = listen MANIFEST_UPDATED OnManifestUpdated c9;
                       c11 = listen LOADED OnLoaded c10;
                       c12 = listen TRACKS_CHANGED OnTracksChanged c11;
                       c13 = listen VARIANT_CHANGED OnVariantChanged c12;
                       c14 = listen ADAPTATION OnVariantChanged c13
                   in Done (c14\<lparr>ctx := (ctx c14)\<lparr>qualities_enableAuto := True,
                                     qualities_change_listeners :=
                                       Suc (qualities_change_listeners (ctx c14))\<rparr>\<rparr>))))"

subsection \<open>Events arriving at the listeners\<close>

definition run_handler :: "(string \<Rightarrow> string) \<Rightarrow> handler \<Rightarrow> ShakaLibEvent \<Rightarrow> ShakaController \<Rightarrow> thrown + ShakaController" where
  "run_handler camelToKebabCase h event c =
     (case h of
        DispatchShakaEvent \<Rightarrow> Inr (dispatchShakaEvent camelToKebabCase event c)
      | OnError \<Rightarrow> Inr (onError event c)
      | OnManifestUpdated \<Rightarrow> Inr (onManifestUpdated camelToKebabCase event c)
      | OnLoaded \<Rightarrow> onLoaded camelToKebabCase event c
      | OnTracksChanged \<Rightarrow> onTracksChanged camelToKebabCase event c
      | OnVariantChanged \<Rightarrow> onVariantChanged camelToKebabCase event c)"

text \<open>
  The player fires an event: each listener bound to the event's type runs, in the order
  bound; a listener that throws is reported by the event target and the rest still run.
\<close>

definition deliver :: "(string \<Rightarrow> string) \<Rightarrow> ShakaLibEvent \<Rightarrow> ShakaController \<Rightarrow> ShakaLibEventName \<times> handler \<Rightarrow> ShakaController" where
  "deliver camelToKebabCase event c l =
     (if event_name_value (fst l) = event_type event then
        (case run_handler camelToKebabCase (snd l) event c of
           Inl err \<Rightarrow> c
         | Inr c' \<Rightarrow> c')
      else c)"

definition fire :: "(string \<Rightarrow> string) \<Rightarrow> ShakaLibEvent \<Rightarrow> ShakaController \<Rightarrow> ShakaController" where
  "fire camelToKebabCase event c =
     foldl (deliver camelToKebabCase event) c
       (case eventManager c of None \<Rightarrow> [] | Some ls \<Rightarrow> ls)"

text \<open>
  The host's qualities list emits \<^verbatim>\<open>change\<close>: every listener bound in a setup runs, and
  one that throws is reported by the event target.
\<close>

definition run_change_listener :: "ShakaController \<Rightarrow> ShakaController" where
  "run_change_listener c = (case onUserQualityChange c of Inl err \<Rightarrow> c | Inr c' \<Rightarrow> c')"

definition qualities_change :: "ShakaController \<Rightarrow> ShakaController" where
  "qualities_change c = (run_change_listener ^^ qualities_change_listeners (ctx c)) c"

section \<open>lib-loader.ts: ShakaLibLoader\<close>

text \<open>
  The callbacks are optional, and act on a state \<open>'s\<close>. \<^verbatim>\<open>onLoaded\<close> runs the caller's
  setup and may throw; the other two, which in the loader only dispatch and notify, are
  taken not to.
\<close>

record 's LoadShakaConstructorCallbacks =
  cb_onLoadStart :: "('s \<Rightarrow> 's) option"
  cb_onLoaded :: "(ShakaConstructor \<Rightarrow> 's \<Rightarrow> 's outcome) option"
  cb_onLoadError :: "(thrown \<Rightarrow> 's \<Rightarrow> 's) option"

text \<open>\<^verbatim>\<open>callbacks.onLoadStart?.()\<close> and its like.\<close>

definition call_onLoadStart :: "'s LoadShakaConstructorCallbacks \<Rightarrow> 's \<Rightarrow> 's" where
  "call_onLoadStart cbs s = (case cb_onLoadStart cbs of None \<Rightarrow> s | Some f \<Rightarrow> f s)"

definition call_onLoaded :: "'s LoadShakaConstructorCallbacks \<Rightarrow> ShakaConstructor \<Rightarrow> 's \<Rightarrow> 's outcome" where
  "call_onLoaded cbs ctor s = (case cb_onLoaded cbs of None \<Rightarrow> Done s | Some f \<Rightarrow> f ctor s)"

definition call_onLoadError :: "'s LoadShakaConstructorCallbacks \<Rightarrow> thrown \<Rightarrow> 's \<Rightarrow> 's" where
  "call_onLoadError cbs err s = (case cb_onLoadError cbs of None \<Rightarrow> s | Some f \<Rightarrow> f err s)"

text \<open>
  \<^verbatim>\<open>callbacks.onLoaded?.(ctor); return ctor\<close> inside a \<^verbatim>\<open>try\<close>: a throw is caught, handed
  to \<^verbatim>\<open>onLoadError\<close>, and the function returns \<^verbatim>\<open>undefined\<close>.
\<close>

definition loaded_in_try :: "'s LoadShakaConstructorCallbacks \<Rightarrow> ShakaConstructor \<Rightarrow> 's \<Rightarrow> ShakaConstructor option \<times> 's" where
  "loaded_in_try cbs ctor s =
     (case call_onLoaded cbs ctor s of
        Done s1 \<Rightarrow> (Some ctor, s1)
      | Threw err s1 \<Rightarrow> (None, call_onLoadError cbs err s1))"

text \<open>The same outside a \<^verbatim>\<open>try\<close>: a throw rejects the promise of the function.\<close>

definition loaded_outside_try :: "'s LoadShakaConstructorCallbacks \<Rightarrow> ShakaConstructor \<Rightarrow> 's \<Rightarrow> (thrown + ShakaConstructor option) \<times> 's" where
  "loaded_outside_try cbs ctor s =
     (case call_onLoaded cbs ctor s of
        Done s1 \<Rightarrow> (Inr (Some ctor), s1)
      | Threw err s1 \<Rightarrow> (Inl err, s1))"

definition isString :: "ShakaLibrary \<Rightarrow> bool" where
  "isString lib = (case lib of LibString url \<Rightarrow> True | _ \<Rightarrow> False)"

text \<open>\<^verbatim>\<open>value && value.prototype && value.prototype !== Function\<close>\<close>

definition isShakaConstructor :: "js_value \<Rightarrow> bool" where
  "isShakaConstructor v =
     (case v of
        ValUndefined \<Rightarrow> False
      | ValObject obj \<Rightarrow> prototype obj \<noteq> NoPrototype \<and> prototype obj \<noteq> FunctionObject)"

text \<open>\<^verbatim>\<open>value && 'Player' in value\<close>\<close>

definition isShakaNamespace :: "js_value \<Rightarrow> bool" where
  "isShakaNamespace v =
     (case v of
        ValUndefined \<Rightarrow> False
      | ValObject obj \<Rightarrow> Player obj \<noteq> None)"

definition invalid_import_error :: "env \<Rightarrow> thrown" where
  "invalid_import_error e =
     ThrownError (JsError ''Error''
       (if DEV e
        then ''[vidstack] failed importing `shaka-player`. Dynamic import returned invalid object.''
        else []))"

definition invalid_window_error :: "env \<Rightarrow> thrown" where
  "invalid_window_error e =
     ThrownError (JsError ''Error''
       (if DEV e
        then ''[vidstack] failed loading `shaka-player`. Could not find a valid `Shaka` constructor on window''
        else []))"

text \<open>The \<^verbatim>\<open>try\<close> block of \<^verbatim>\<open>importShaka\<close>, with its \<^verbatim>\<open>catch\<close>.\<close>

definition importShaka_try :: "env \<Rightarrow> import_outcome \<Rightarrow> 's LoadShakaConstructorCallbacks \<Rightarrow> 's \<Rightarrow> ShakaConstructor option \<times> 's" where
  "importShaka_try e outcome cbs s =
     (case outcome of
        ImportThrows err \<Rightarrow> (None, call_onLoadError cbs err s)
      | ImportDefault v \<Rightarrow>
          (case v of
             ValUndefined \<Rightarrow> (None, call_onLoadError cbs (invalid_import_error e) s)
           | ValObject obj \<Rightarrow>
               if isShakaNamespace v then
                 (case Player obj of
                    Some ctor \<Rightarrow> loaded_in_try cbs ctor s
                  | None \<Rightarrow> (None, s))
               else loaded_in_try cbs (self_ctor obj) s))"

text \<open>
  \<^verbatim>\<open>importShaka\<close>. Its parameter type has no string; on one the \<^verbatim>\<open>in\<close> of
  \<^verbatim>\<open>isShakaNamespace\<close> would throw outside the \<^verbatim>\<open>try\<close> (the empty string is falsy and
  reaches the call \<^verbatim>\<open>loader()\<close>, which throws inside it).
\<close>

definition importShaka :: "env \<Rightarrow> ShakaLibrary \<Rightarrow> 's LoadShakaConstructorCallbacks \<Rightarrow> 's \<Rightarrow> (thrown + ShakaConstructor option) \<times> 's" where
  "importShaka e loader cbs s =
     (case loader of
        LibUndefined \<Rightarrow> (Inr None, s)
      | LibString url \<Rightarrow>
          (let s1 = call_onLoadStart cbs s
           in if url = [] then (Inr None, call_onLoadError cbs ThrownTypeError s1)
              else (Inl ThrownTypeError, s1))
      | LibObject obj outcome \<Rightarrow>
          (let s1 = call_onLoadStart cbs s
           in if isShakaConstructor (ValObject obj) then
                loaded_outside_try cbs (self_ctor obj) s1
              else if isShakaNamespace (ValObject obj) then
                (case Player obj of
                   Some ctor \<Rightarrow> loaded_outside_try cbs ctor s1
                 | None \<Rightarrow> (Inr None, s1))
              else (case importShaka_try e outcome cbs s1 of
                      (ctor, s2) \<Rightarrow> (Inr ctor, s2))))"

definition loadShakaScript :: "env \<Rightarrow> ShakaLibrary \<Rightarrow> 's LoadShakaConstructorCallbacks \<Rightarrow> 's \<Rightarrow> ShakaConstructor option \<times> 's" where
  "loadShakaScript e lib cbs s =
     (case lib of
        LibString url \<Rightarrow>
          (let s1 = call_onLoadStart cbs s
           in case loadScript e url of
                Some err \<Rightarrow> (None, call_onLoadError cbs err s1)
              | None \<Rightarrow>
                  (case window_shaka e of
                     ShakaMissing \<Rightarrow> (None, call_onLoadError cbs ThrownTypeError s1)
                   | PlayerNotFunction \<Rightarrow>
                       (None, call_onLoadError cbs (invalid_window_error e) s1)
                   | PlayerFunction ctor supported \<Rightarrow> loaded_in_try cbs ctor s1))
      | _ \<Rightarrow> (None, s))"

section \<open>provider.ts: ShakaProvider\<close>

record ShakaProvider =
  provider_ctor :: "ShakaConstructor option"
  controller :: ShakaController
  provider_library :: ShakaLibrary

definition provider_call :: "action \<Rightarrow> ShakaProvider \<Rightarrow> ShakaProvider" where
  "provider_call a p = p\<lparr>controller := call a (controller p)\<rparr>"

definition default_library :: "bool \<Rightarrow> string" where
  "default_library dev =
     ''https://cdn.jsdelivr.net'' @ ''/npm/shaka-player@4.16.0/dist/shaka-player.compiled''
       @ (if dev then ''.debug.js'' else ''.js'')"

definition ShakaProvider_new :: "env \<Rightarrow> HTMLVideoElement option \<Rightarrow> MediaContext \<Rightarrow> ShakaProvider" where
  "ShakaProvider_new e v c =
     \<lparr>provider_ctor = None, controller = ShakaController_new v c,
      provider_library = LibString (default_library (DEV e))\<rparr>"

definition ShakaProvider_supported :: "env \<Rightarrow> bool" where
  "ShakaProvider_supported e = (isHLSSupported e \<or> isDASHSupported e)"

text \<open>
  \<^verbatim>\<open>loadSource\<close> is async: where the controller's \<^verbatim>\<open>loadSource\<close> throws, its promise
  rejects, with \<^verbatim>\<open>currentSrc\<close> not yet set.
\<close>

definition ShakaProvider_loadSource :: "Src \<Rightarrow> string option \<Rightarrow> ShakaProvider \<Rightarrow> ShakaProvider outcome" where
  "ShakaProvider_loadSource s preload p =
     (case src s of
        SrcObject \<Rightarrow> Done (provider_call RemoveSource p)
      | SrcString url \<Rightarrow>
          (let p1 = provider_call (SetPreload (case preload of None \<Rightarrow> [] | Some v \<Rightarrow> v)) p;
               p2 = provider_call (AppendSource s) p1
           in case loadSource s (controller p2) of
                Inl err \<Rightarrow> Threw err p2
              | Inr c \<Rightarrow> Done (provider_call (SetCurrentSrc s) (p2\<lparr>controller := c\<rparr>))))"

text \<open>
  The callback \<^verbatim>\<open>ShakaProvider.setup\<close> hands to the library loader. A throw of the
  controller's setup leaves it at once; the promise of \<^verbatim>\<open>loadSource\<close> is not awaited.
\<close>

definition setup_callback :: "env \<Rightarrow> ShakaConstructor \<Rightarrow> ShakaProvider \<Rightarrow> ShakaProvider outcome" where
  "setup_callback e ctor p =
     (let p1 = p\<lparr>provider_ctor := Some ctor\<rparr>
      in case ShakaController_setup e ctor (controller p1) of
           Threw err c \<Rightarrow> Threw err (p1\<lparr>controller := c\<rparr>)
         | Done c \<Rightarrow>
             (let p2 = p1\<lparr>controller := c\<rparr>;
                  p3 = provider_call (Notify ''provider-setup'' ProviderSetup None) p2
              in case state_source (ctx (controller p3)) of
                   None \<Rightarrow> Done p3
                 | Some s \<Rightarrow> Done (state_of (ShakaProvider_loadSource s None p3))))"

text \<open>
  \<^verbatim>\<open>ShakaProvider.onInstance\<close>: an instance already there, of whatever kind, gets the
  callback at once.
\<close>

definition instance_number :: "instance_value \<Rightarrow> nat" where
  "instance_number i = (case i of IsPlayer p \<Rightarrow> player_id p | OtherObject n \<Rightarrow> n)"

definition ShakaProvider_onInstance :: "nat \<Rightarrow> ShakaProvider \<Rightarrow> ShakaProvider" where
  "ShakaProvider_onInstance callback p =
     (let p1 = (case shaka_instance (controller p) of
                  None \<Rightarrow> p
                | Some i \<Rightarrow> provider_call (InstanceCallback callback (instance_number i)) p)
      in p1\<lparr>controller := onInstance callback (controller p1)\<rparr>)"

subsection \<open>The loader's own methods, on the provider's context\<close>

definition ShakaLibLoader_onLoadStart :: "ShakaProvider \<Rightarrow> ShakaProvider" where
  "ShakaLibLoader_onLoadStart p =
     provider_call (PlayerDispatch (DOMEvent ''shaka-lib-load-start'' NoDetail None)) p"

definition ShakaLibLoader_onLoaded :: "(ShakaConstructor \<Rightarrow> ShakaProvider \<Rightarrow> ShakaProvider outcome) \<Rightarrow> ShakaConstructor \<Rightarrow> ShakaProvider \<Rightarrow> ShakaProvider outcome" where
  "ShakaLibLoader_onLoaded callback ctor p =
     callback ctor
       (provider_call (PlayerDispatch (DOMEvent ''shaka-lib-loaded'' (CtorDetail ctor) None)) p)"

definition ShakaLibLoader_onLoadError :: "env \<Rightarrow> thrown \<Rightarrow> ShakaProvider \<Rightarrow> ShakaProvider" where
  "ShakaLibLoader_onLoadError e err p =
     (let error = coerceToError e err;
          p1 = provider_call
                 (PlayerDispatch (DOMEvent ''shaka-lib-load-error'' (ErrorDetail error) None)) p
      in provider_call (Notify ''error'' (MediaError (message error) 4 (Some error)) None) p1)"

definition unsupported_message :: string where
  "unsupported_message = ''[vidstack] `shaka-player` is not supported in this environment''"

text \<open>
  The two awaits of \<^verbatim>\<open>#startLoading\<close>: the remote script, then, where that gave
  \<^verbatim>\<open>undefined\<close> and the library is no string, the import.
\<close>

definition loadConstructor :: "env \<Rightarrow> ShakaLibrary \<Rightarrow> 's LoadShakaConstructorCallbacks \<Rightarrow> 's \<Rightarrow> (thrown + ShakaConstructor option) \<times> 's" where
  "loadConstructor e lib cbs s =
     (case loadShakaScript e lib cbs s of
        (ctor, s1) \<Rightarrow>
          if ctor = None \<and> \<not> isString lib then importShaka e lib cbs s1
          else (Inr ctor, s1))"

text \<open>
  \<^verbatim>\<open>#startLoading\<close>: the settled value of its promise (\<open>Inl\<close> where it rejects), and
  the state it leaves. The constructor drops the promise.
\<close>

definition startLoading :: "env \<Rightarrow> ShakaLibrary \<Rightarrow> (ShakaConstructor \<Rightarrow> ShakaProvider \<Rightarrow> ShakaProvider outcome) \<Rightarrow> ShakaProvider \<Rightarrow> (thrown + ShakaConstructor option) \<times> ShakaProvider" where
  "startLoading e lib callback p =
     (let cbs = \<lparr>cb_onLoadStart = Some ShakaLibLoader_onLoadStart,
                 cb_onLoaded = Some (ShakaLibLoader_onLoaded callback),
                 cb_onLoadError = Some (ShakaLibLoader_onLoadError e)\<rparr>
      in case loadConstructor e lib cbs p of
           (Inl err, p2) \<Rightarrow> (Inl err, p2)
         | (Inr None, p2) \<Rightarrow> (Inr None, p2)
         | (Inr (Some ctor), p2) \<Rightarrow>
             (case window_shaka e of
                PlayerFunction c supported \<Rightarrow>
                  if \<not> supported then
                    (let p3 = provider_call
                                (PlayerDispatch (DOMEvent ''shaka-unsupported'' NoDetail None)) p2
                     in (Inr None,
                         provider_call
                           (Notify ''error'' (MediaError unsupported_message 4 None) None) p3))
                  else (Inr (Some ctor), p2)
              | _ \<Rightarrow> (Inl ThrownTypeError, p2)))"

definition ShakaLibLoader_new :: "env \<Rightarrow> ShakaLibrary \<Rightarrow> (ShakaConstructor \<Rightarrow> ShakaProvider \<Rightarrow> ShakaProvider outcome) \<Rightarrow> ShakaProvider \<Rightarrow> ShakaProvider" where
  "ShakaLibLoader_new e lib callback p = snd (startLoading e lib callback p)"

definition ShakaProvider_setup :: "env \<Rightarrow> ShakaProvider \<Rightarrow> ShakaProvider" where
  "ShakaProvider_setup e p =
     (let p1 = provider_call SuperSetup p
      in ShakaLibLoader_new e (provider_library p1) (setup_callback e) p1)"

section \<open>loader.ts: ShakaProviderLoader\<close>

definition ShakaProviderLoader_supported :: "env \<Rightarrow> bool" where
  "ShakaProviderLoader_supported e = isHLSSupported e"

text \<open>\<open>isHLSSrc\<close> and \<open>isDASHSrc\<close> are the host's and are parameters.\<close>

definition canPlay :: "env \<Rightarrow> (Src \<Rightarrow> bool) \<Rightarrow> (Src \<Rightarrow> bool) \<Rightarrow> Src \<Rightarrow> bool" where
  "canPlay e isHLSSrc isDASHSrc s =
     (ShakaProviderLoader_supported e \<and> (isHLSSrc s \<or> isDASHSrc s))"

definition server_side_error :: thrown where
  "server_side_error =
     ThrownError (JsError ''Error'' ''[vidstack] can not load shaka provider server-side'')"

definition no_video_error :: thrown where
  "no_video_error =
     ThrownError (JsError ''Error''
       ''[vidstack] `<video>` element was not found - did you forget to include `<media-provider>`?'')"

definition load :: "env \<Rightarrow> HTMLVideoElement option \<Rightarrow> MediaContext \<Rightarrow> thrown + ShakaProvider" where
  "load e target context =
     (if SERVER e then Inl server_side_error
      else if DEV e \<and> target = None then Inl no_video_error
      else (case import_provider e of
              Some err \<Rightarrow> Inl err
            | None \<Rightarrow> Inr (ShakaProvider_new e target context)))"

section \<open>What the claims speak of\<close>

text \<open>The thirteen bindings of \<^verbatim>\<open>setup\<close>, in the order made.\<close>

definition wired :: "(ShakaLibEventName \<times> handler) list" where
  "wired =
     [(ABR_STATUS_CHANGED, DispatchShakaEvent), (ERROR, DispatchShakaEvent),
      (TRACKS_CHANGED, DispatchShakaEvent), (LOADED, DispatchShakaEvent),
      (MANIFEST_UPDATED, DispatchShakaEvent), (VARIANT_CHANGED, DispatchShakaEvent),
      (ADAPTATION, DispatchShakaEvent), (ERROR, OnError),
      (MANIFEST_UPDATED, OnManifestUpdated), (LOADED, OnLoaded),
      (TRACKS_CHANGED, OnTracksChanged), (VARIANT_CHANGED, OnVariantChanged),
      (ADAPTATION, OnVariantChanged)]"

text \<open>The calls of the \<^verbatim>\<open>forEach\<close>: one per item, numbered from \<open>i\<close>.\<close>

definition added :: "DOMEvent \<Rightarrow> nat \<Rightarrow> Track list \<Rightarrow> action list" where
  "added trigger i items =
     map (\<lambda>(index, item). QualitiesAdd (quality_of item index) trigger) (enumerate i items)"

text \<open>
  The order of forms as the specification words it: a string is loaded as a remote script
  and gives \<^verbatim>\<open>window.shaka.Player\<close>; otherwise a direct constructor reference; otherwise a
  namespace, giving its \<^verbatim>\<open>Player\<close>; otherwise a dynamic-import loader, giving the default
  export, or that export's \<^verbatim>\<open>Player\<close> when it is a namespace.
\<close>

definition spec_resolve :: "env \<Rightarrow> ShakaLibrary \<Rightarrow> ShakaConstructor option" where
  "spec_resolve e lib =
     (case lib of
        LibString url \<Rightarrow>
          (case loadScript e url of
             Some err \<Rightarrow> None
           | None \<Rightarrow>
               (case window_shaka e of
                  PlayerFunction ctor supported \<Rightarrow> Some ctor
                | _ \<Rightarrow> None))
      | LibUndefined \<Rightarrow> None
      | LibObject obj outcome \<Rightarrow>
          if prototype obj = OtherPrototype then Some (self_ctor obj)
          else (case Player obj of
                  Some ctor \<Rightarrow> Some ctor
                | None \<Rightarrow>
                    (case outcome of
                       ImportThrows err \<Rightarrow> None
                     | ImportDefault ValUndefined \<Rightarrow> None
                     | ImportDefault (ValObject d) \<Rightarrow>
                         (case Player d of
                            Some ctor \<Rightarrow> Some ctor
                          | None \<Rightarrow> Some (self_ctor d)))))"

text \<open>
  The forms whose success callback runs inside a \<^verbatim>\<open>try\<close>: the remote script and the
  dynamic import.
\<close>

definition in_try :: "ShakaLibrary \<Rightarrow> bool" where
  "in_try lib =
     (case lib of
        LibString url \<Rightarrow> True
      | LibUndefined \<Rightarrow> False
      | LibObject obj outcome \<Rightarrow>
          \<not> isShakaConstructor (ValObject obj) \<and> \<not> isShakaNamespace (ValObject obj))"

text \<open>The error a failed resolution hands to \<^verbatim>\<open>onLoadError\<close>.\<close>

definition spec_load_error :: "env \<Rightarrow> ShakaLibrary \<Rightarrow> thrown option" where
  "spec_load_error e lib =
     (case lib of
        LibString url \<Rightarrow>
          (case loadScript e url of
             Some err \<Rightarrow> Some err
           | None \<Rightarrow>
               (case window_shaka e of
                  ShakaMissing \<Rightarrow> Some ThrownTypeError
                | PlayerNotFunction \<Rightarrow> Some (invalid_window_error e)
                | PlayerFunction ctor supported \<Rightarrow> None))
      | LibUndefined \<Rightarrow> None
      | LibObject obj outcome \<Rightarrow>
          if isShakaConstructor (ValObject obj) \<or> isShakaNamespace (ValObject obj) then None
          else (case outcome of
                  ImportThrows err \<Rightarrow> Some err
                | ImportDefault ValUndefined \<Rightarrow> Some (invalid_import_error e)
                | ImportDefault (ValObject d) \<Rightarrow> None))"

subsection \<open>Concrete inputs\<close>

definition example_quality :: VideoQuality where
  "example_quality =
     \<lparr>quality_id = ''5'', quality_width = 1280, quality_height = 720, quality_bitrate = 0,
      quality_codec = JsVal ''avc1'', quality_index = 0\<rparr>"

definition example_context :: MediaContext where
  "example_context =
     \<lparr>state_canPlay = False, state_source = None, qualities_auto = False,
      qualities_selected = Some example_quality,
      qualities_getById = (\<lambda>i. if i = ''5'' then Some example_quality else None),
      qualities_enableAuto = False, qualities_change_listeners = 0, trace = [],
      instances_created = 0\<rparr>"

text \<open>
  A browser in which the default script loads and installs the library: the constructor
  numbered 1 is the player class, the one numbered 2 a function that gives no player, and
  nothing else can be constructed.
\<close>

definition example_env :: env where
  "example_env =
     \<lparr>SERVER = False, DEV = False, isHLSSupported = False, isDASHSupported = True,
      coerceToError = (\<lambda>t. case t of
                           ThrownError err \<Rightarrow> err
                         | ThrownTypeError \<Rightarrow> JsError ''TypeError'' ''not a function''
                         | ThrownReferenceError \<Rightarrow> JsError ''ReferenceError'' ''shaka is not defined''
                         | ThrownValue n \<Rightarrow> JsError ''Error'' ''{}''),
      loadScript = (\<lambda>url. if url = default_library False then None else Some (ThrownValue 0)),
      window_shaka = PlayerFunction (ShakaConstructor 1) True,
      import_provider = None,
      new_result = (\<lambda>c. if c = ShakaConstructor 1 then NewPlayer
                         else if c = ShakaConstructor 2 then NewOther else NewThrows)\<rparr>"

definition example_controller :: ShakaController where
  "example_controller = ShakaController_new (Some 7) example_context"

definition example_event :: "string \<Rightarrow> ShakaLibEvent" where
  "example_event t =
     \<lparr>event_type = t, event_newStatus = JsUndefined, event_isLive = JsUndefined,
      event_oldTrack = JsUndefined, event_newTrack = JsUndefined\<rparr>"

definition example_track :: "int nullish \<Rightarrow> int nullish \<Rightarrow> Track" where
  "example_track i h =
     \<lparr>track_id = i, track_width = JsVal 1280, track_height = h, track_bandwidth = JsNull,
      track_videoCodec = JsVal ''avc1''\<rparr>"

definition example_tracks :: "Track list" where
  "example_tracks =
     [example_track (JsVal 5) (JsVal 720), example_track (JsVal 6) JsNull,
      example_track JsUndefined (JsVal 1080)]"

text \<open>A controller after one setup, whose player has since loaded three variant tracks.\<close>

definition example_wired :: ShakaController where
  "example_wired =
     (state_of (ShakaController_setup example_env (ShakaConstructor 1) example_controller))
       \<lparr>shaka_instance :=
          Some (IsPlayer \<lparr>player_id = 0, player_ctor = ShakaConstructor 1,
                          getVariantTracks = example_tracks, getMediaElement = Some 7\<rparr>)\<rparr>"

definition example_variantchanged :: ShakaLibEvent where
  "example_variantchanged =
     (example_event ''variantchanged'')
       \<lparr>event_newTrack := JsVal (example_track (JsVal 5) (JsVal 720))\<rparr>"

definition example_adaptation :: ShakaLibEvent where
  "example_adaptation = (example_event ''adaptation'')\<lparr>event_newTrack := JsNull\<rparr>"

definition unsupported_calls :: "env \<Rightarrow> action list" where
  "unsupported_calls e =
     (case window_shaka e of
        PlayerFunction c supported \<Rightarrow>
          if supported then []
          else [PlayerDispatch (DOMEvent ''shaka-unsupported'' NoDetail None),
                Notify ''error'' (MediaError unsupported_message 4 None) None]
      | _ \<Rightarrow> [])"

definition source_calls :: "Src option \<Rightarrow> nat \<Rightarrow> action list" where
  "source_calls source n =
     (case source of
        None \<Rightarrow> []
      | Some s \<Rightarrow>
          (case src s of
             SrcObject \<Rightarrow> [RemoveSource]
           | SrcString url \<Rightarrow> [SetPreload [], AppendSource s, Load n url, SetCurrentSrc s]))"


definition example_config :: PlayerConfiguration where
  "example_config = [(''streaming'', ConfigObject [(''bufferingGoal'', ConfigNumber 30)])]"

text \<open>A provider as \<^verbatim>\<open>load\<close> builds it, given a config and three \<^verbatim>\<open>onInstance\<close> calls.\<close>

definition example_provider :: ShakaProvider where
  "example_provider =
     ShakaProvider_onInstance 3 (ShakaProvider_onInstance 4 (ShakaProvider_onInstance 3
       ((ShakaProvider_new example_env (Some 7) example_context)
          \<lparr>controller := (ShakaController_new (Some 7) example_context)
                            \<lparr>config := example_config\<rparr>\<rparr>)))"

definition example_dash :: Src where
  "example_dash = \<lparr>src = SrcString ''https://example.org/manifest.mpd'', src_type = ''application/dash+xml''\<rparr>"

text \<open>
  A library handed over as a constructor reference, and one that is a loader declared with
  \<^verbatim>\<open>function\<close>, which has a \<^verbatim>\<open>prototype\<close> and is taken for a constructor.
\<close>

definition example_reference :: ShakaLibrary where
  "example_reference =
     LibObject \<lparr>self_ctor = ShakaConstructor 1, prototype = OtherPrototype, Player = None\<rparr>
       (ImportThrows ThrownTypeError)"

definition example_function_loader :: ShakaLibrary where
  "example_function_loader =
     LibObject \<lparr>self_ctor = ShakaConstructor 2, prototype = OtherPrototype, Player = None\<rparr>
       (ImportDefault (ValObject
          \<lparr>self_ctor = ShakaConstructor 1, prototype = OtherPrototype, Player = None\<rparr>))"

section \<open>Facts about the controller\<close>

lemma call_simps [simp]:
  "trace (ctx (call a c)) = trace (ctx c) @ [a]"
  "shaka_instance (call a c) = shaka_instance c"
  "eventManager (call a c) = eventManager c"
  "callbacks (call a c) = callbacks c"
  "config (call a c) = config c"
  "video (call a c) = video c"
  "instances_created (ctx (call a c)) = instances_created (ctx c)"
  "state_canPlay (ctx (call a c)) = state_canPlay (ctx c)"
  "state_source (ctx (call a c)) = state_source (ctx c)"
  "qualities_auto (ctx (call a c)) = qualities_auto (ctx c)"
  "qualities_selected (ctx (call a c)) = qualities_selected (ctx c)"
  "qualities_getById (ctx (call a c)) = qualities_getById (ctx c)"
  "qualities_enableAuto (ctx (call a c)) = qualities_enableAuto (ctx c)"
  "qualities_change_listeners (ctx (call a c)) = qualities_change_listeners (ctx c)"
  by (simp_all add: call_def)

lemma listen_simps [simp]:
  "ctx (listen n h c) = ctx c"
  "shaka_instance (listen n h c) = shaka_instance c"
  "eventManager (listen n h c) = map_option (\<lambda>ls. ls @ [(n, h)]) (eventManager c)"
  "callbacks (listen n h c) = callbacks c"
  "config (listen n h c) = config c"
  "video (listen n h c) = video c"
  by (simp_all add: listen_def)

lemma ctx_call: "ctx (call a c) = (ctx c)\<lparr>trace := trace (ctx c) @ [a]\<rparr>"
  by (simp add: call_def)

lemma ctx_foldl_call:
  "ctx (foldl (\<lambda>c cb. call (f cb) c) c xs) = (ctx c)\<lparr>trace := trace (ctx c) @ map f xs\<rparr>"
  by (induction xs arbitrary: c) (simp_all add: ctx_call)

lemma foldl_callbacks_simps [simp]:
  "trace (ctx (foldl (\<lambda>c cb. call (f cb) c) c xs)) = trace (ctx c) @ map f xs"
  "shaka_instance (foldl (\<lambda>c cb. call (f cb) c) c xs) = shaka_instance c"
  "eventManager (foldl (\<lambda>c cb. call (f cb) c) c xs) = eventManager c"
  "callbacks (foldl (\<lambda>c cb. call (f cb) c) c xs) = callbacks c"
  "config (foldl (\<lambda>c cb. call (f cb) c) c xs) = config c"
  "video (foldl (\<lambda>c cb. call (f cb) c) c xs) = video c"
  by (induction xs arbitrary: c) simp_all

text \<open>When setup runs to its end, and what it leaves then.\<close>

lemma setup_Done_iff:
  "(\<exists>c'. ShakaController_setup e ctor c = Done c') \<longleftrightarrow>
     window_shaka e \<noteq> ShakaMissing \<and> new_result e ctor = NewPlayer"
  by (cases "window_shaka e"; cases "new_result e ctor")
    (simp_all add: ShakaController_setup_def Let_def)

lemma setup_Done:
  assumes "ShakaController_setup e ctor c = Done c'"
  shows "eventManager c' = Some wired"
    and "shaka_instance c' =
           Some (IsPlayer \<lparr>player_id = instances_created (ctx c), player_ctor = ctor,
                           getVariantTracks = [], getMediaElement = None\<rparr>)"
    and "callbacks c' = callbacks c"
    and "config c' = config c"
    and "video c' = video c"
    and "ctx c' =
     (ctx c)\<lparr>trace := trace (ctx c) @ [PolyfillInstallAll, New ctor (instances_created (ctx c))]
                 @ map (\<lambda>cb. InstanceCallback cb (instances_created (ctx c))) (callbacks c)
                 @ [Attach (instances_created (ctx c)) (video c),
                    PlayerDispatch (DOMEvent ''shaka-instance''
                      (InstanceDetail (instances_created (ctx c))) None),
                    Configure (instances_created (ctx c)) (config c)],
             instances_created := Suc (instances_created (ctx c)),
             qualities_enableAuto := True,
             qualities_change_listeners := Suc (qualities_change_listeners (ctx c))\<rparr>"
proof -
  from assms have g: "window_shaka e \<noteq> ShakaMissing" and n: "new_result e ctor = NewPlayer"
    using setup_Done_iff [of e ctor c] by auto
  from g n assms have c': "c' = state_of (ShakaController_setup e ctor c)" by simp
  show "eventManager c' = Some wired"
    using g n unfolding c'
    by (cases "window_shaka e")
      (simp_all add: ShakaController_setup_def Let_def ShakaLibEventName_values_def wired_def)
  show "shaka_instance c' =
           Some (IsPlayer \<lparr>player_id = instances_created (ctx c), player_ctor = ctor,
                           getVariantTracks = [], getMediaElement = None\<rparr>)"
    using g n unfolding c'
    by (cases "window_shaka e")
      (simp_all add: ShakaController_setup_def Let_def ShakaLibEventName_values_def)
  show "callbacks c' = callbacks c"
    using g n unfolding c'
    by (cases "window_shaka e")
      (simp_all add: ShakaController_setup_def Let_def ShakaLibEventName_values_def)
  show "config c' = config c"
    using g n unfolding c'
    by (cases "window_shaka e")
      (simp_all add: ShakaController_setup_def Let_def ShakaLibEventName_values_def)
  show "video c' = video c"
    using g n unfolding c'
    by (cases "window_shaka e")
      (simp_all add: ShakaController_setup_def Let_def ShakaLibEventName_values_def)
  show "ctx c' =
     (ctx c)\<lparr>trace := trace (ctx c) @ [PolyfillInstallAll, New ctor (instances_created (ctx c))]
                 @ map (\<lambda>cb. InstanceCallback cb (instances_created (ctx c))) (callbacks c)
                 @ [Attach (instances_created (ctx c)) (video c),
                    PlayerDispatch (DOMEvent ''shaka-instance''
                      (InstanceDetail (instances_created (ctx c))) None),
                    Configure (instances_created (ctx c)) (config c)],
             instances_created := Suc (instances_created (ctx c)),
             qualities_enableAuto := True,
             qualities_change_listeners := Suc (qualities_change_listeners (ctx c))\<rparr>"
    using g n unfolding c'
    by (cases "window_shaka e")
      (simp_all add: ShakaController_setup_def Let_def ShakaLibEventName_values_def
        ctx_call ctx_foldl_call)
qed

lemma setup_runs:
  assumes "window_shaka e \<noteq> ShakaMissing" and "new_result e ctor = NewPlayer"
  shows "ShakaController_setup e ctor c = Done (state_of (ShakaController_setup e ctor c))"
  using assms setup_Done_iff [of e ctor c] by auto

text \<open>Where setup throws, and what it has done by then.\<close>

lemma setup_without_global:
  "window_shaka e = ShakaMissing \<Longrightarrow>
   ShakaController_setup e ctor c = Threw ThrownReferenceError c"
  by (simp add: ShakaController_setup_def)

lemma setup_not_constructible:
  "window_shaka e \<noteq> ShakaMissing \<Longrightarrow> new_result e ctor = NewThrows \<Longrightarrow>
   ShakaController_setup e ctor c = Threw ThrownTypeError (call PolyfillInstallAll c)"
  by (cases "window_shaka e") (simp_all add: ShakaController_setup_def Let_def)

lemma setup_no_player:
  assumes "window_shaka e \<noteq> ShakaMissing" and "new_result e ctor = NewOther"
  shows "\<exists>c'. ShakaController_setup e ctor c = Threw ThrownTypeError c'
           \<and> trace (ctx c') =
               trace (ctx c) @ [PolyfillInstallAll, New ctor (instances_created (ctx c))]
           \<and> shaka_instance c' = Some (OtherObject (instances_created (ctx c)))
           \<and> eventManager c' = Some []"
  using assms
  by (cases "window_shaka e") (simp_all add: ShakaController_setup_def Let_def)

lemma fire_wired:
  "eventManager c = Some wired \<Longrightarrow> fire k e c = foldl (deliver k e) c wired"
  by (simp add: fire_def)

lemma deliver_other [simp]:
  "event_name_value n \<noteq> event_type e \<Longrightarrow> deliver k e c (n, h) = c"
  by (simp add: deliver_def)

lemma deliver_dispatch [simp]:
  "event_name_value n = event_type e \<Longrightarrow>
     deliver k e c (n, DispatchShakaEvent) = dispatchShakaEvent k e c"
  by (simp add: deliver_def run_handler_def)



lemma fire_abrstatuschanged:
  assumes "eventManager c = Some wired" and "event_type e = ''abrstatuschanged''"
  shows "fire k e c = dispatchShakaEvent k e c"
  using assms by (simp add: fire_wired wired_def deliver_def run_handler_def)

lemma fire_error:
  assumes "eventManager c = Some wired" and "event_type e = ''error''"
  shows "fire k e c = dispatchShakaEvent k e c"
  using assms by (simp add: fire_wired wired_def deliver_def run_handler_def onError_def)

lemma fire_manifestupdated:
  assumes "eventManager c = Some wired" and "event_type e = ''manifestupdated''"
  shows "fire k e c = onManifestUpdated k e (dispatchShakaEvent k e c)"
  using assms by (simp add: fire_wired wired_def deliver_def run_handler_def)

lemma fire_loaded:
  assumes "eventManager c = Some wired" and "event_type e = ''loaded''"
  shows "fire k e c =
           (case onLoaded k e (dispatchShakaEvent k e c) of
              Inl err \<Rightarrow> dispatchShakaEvent k e c | Inr c' \<Rightarrow> c')"
  using assms by (simp add: fire_wired wired_def deliver_def run_handler_def)

lemma fire_trackschanged:
  assumes "eventManager c = Some wired" and "event_type e = ''trackschanged''"
  shows "fire k e c =
           (case onTracksChanged k e (dispatchShakaEvent k e c) of
              Inl err \<Rightarrow> dispatchShakaEvent k e c | Inr c' \<Rightarrow> c')"
  using assms by (simp add: fire_wired wired_def deliver_def run_handler_def)

lemma fire_variantchanged:
  assumes "eventManager c = Some wired"
    and "event_type e = ''variantchanged'' \<or> event_type e = ''adaptation''"
  shows "fire k e c =
           (case onVariantChanged k e (dispatchShakaEvent k e c) of
              Inl err \<Rightarrow> dispatchShakaEvent k e c | Inr c' \<Rightarrow> c')"
proof -
  from assms(2) show ?thesis
  proof
    assume "event_type e = ''variantchanged''"
    with assms(1) show ?thesis
      by (simp add: fire_wired wired_def deliver_def run_handler_def)
  next
    assume "event_type e = ''adaptation''"
    with assms(1) show ?thesis
      by (simp add: fire_wired wired_def deliver_def run_handler_def)
  qed
qed



lemma dispatch_simps [simp]:
  "trace (ctx (dispatchShakaEvent k e c)) = trace (ctx c) @ [PlayerDispatch (createDOMEvent k e)]"
  "shaka_instance (dispatchShakaEvent k e c) = shaka_instance c"
  "eventManager (dispatchShakaEvent k e c) = eventManager c"
  "qualities_getById (ctx (dispatchShakaEvent k e c)) = qualities_getById (ctx c)"
  "state_canPlay (ctx (dispatchShakaEvent k e c)) = state_canPlay (ctx c)"
  by (simp_all add: dispatchShakaEvent_def)


lemma add_qualities_trace:
  "trace (ctx (add_qualities trigger i items c)) = trace (ctx c) @ added trigger i items"
  by (induction items arbitrary: i c) (simp_all add: added_def)

lemma onManifestUpdated_trace:
  "trace (ctx (onManifestUpdated k e c)) =
     trace (ctx c) @ [QualitiesSetAuto True (createDOMEvent k e),
                      Notify ''stream-type-change''
                        (StreamType (if event_isLive e = JsVal True then ''live'' else ''on-demand''))
                        (Some (createDOMEvent k e))]"
  by (cases "event_isLive e") (simp_all add: onManifestUpdated_def Let_def)

lemma onLoaded_cases:
  "onLoaded k e c = Inl ThrownTypeError \<or> onLoaded k e c = Inr c \<or>
   (\<exists>m. onLoaded k e c =
      Inr (call (MediaDispatch m (DOMEvent ''canplay'' NoDetail (Some (createDOMEvent k e)))) c))"
  by (auto simp add: onLoaded_def Let_def split: option.splits instance_value.splits)

lemma onLoaded_player:
  "shaka_instance c = Some (IsPlayer p) \<Longrightarrow>
   onLoaded k e c =
     Inr (if state_canPlay (ctx c) then c
          else (case getMediaElement p of
                  None \<Rightarrow> c
                | Some m \<Rightarrow>
                    call (MediaDispatch m
                            (DOMEvent ''canplay'' NoDetail (Some (createDOMEvent k e)))) c))"
  by (simp add: onLoaded_def Let_def split: option.splits)

lemma onTracksChanged_trace:
  "shaka_instance c = Some (IsPlayer p) \<Longrightarrow>
   \<exists>c'. onTracksChanged k e c = Inr c' \<and>
     trace (ctx c') =
       trace (ctx c) @ added (createDOMEvent k e) 0
         (filter (\<lambda>item. track_height item \<noteq> JsNull) (getVariantTracks p))"
  by (simp add: onTracksChanged_def Let_def add_qualities_trace)

lemma onTracksChanged_none:
  "shaka_instance c = None \<or> shaka_instance c = Some (OtherObject n) \<Longrightarrow>
   onTracksChanged k e c = Inl ThrownTypeError"
  by (auto simp add: onTracksChanged_def)



lemma onVariantChanged_select:
  "event_newTrack e = JsVal t \<Longrightarrow> track_id t = JsVal n \<Longrightarrow>
   onVariantChanged k e c =
     Inr (call (QualitiesSelect (qualities_getById (ctx c) (toString n)) True (createDOMEvent k e)) c)"
  by (simp add: onVariantChanged_def Let_def)

lemma onVariantChanged_falsy:
  "\<not> truthy (event_newTrack e) \<Longrightarrow> onVariantChanged k e c = Inr c"
  by (simp add: onVariantChanged_def Let_def)

lemma onVariantChanged_throws:
  "event_newTrack e = JsVal t \<Longrightarrow> track_id t = JsNull \<or> track_id t = JsUndefined \<Longrightarrow>
   onVariantChanged k e c = Inl ThrownTypeError"
  by (auto simp add: onVariantChanged_def Let_def)

lemma onVariantChanged_cases:
  "onVariantChanged k e c = Inl ThrownTypeError \<or> onVariantChanged k e c = Inr c \<or>
   (\<exists>q. onVariantChanged k e c = Inr (call (QualitiesSelect q True (createDOMEvent k e)) c))"
  by (auto simp add: onVariantChanged_def Let_def split: nullish.splits)

lemma no_dispatch_added: "PlayerDispatch d \<notin> set (added trigger i items)"
  by (auto simp add: added_def)

lemma fire_dispatches_first:
  assumes w: "eventManager c = Some wired" and n: "event_type e = event_name_value name"
  shows "\<exists>rest. trace (ctx (fire k e c)) = trace (ctx c) @ PlayerDispatch (createDOMEvent k e) # rest
           \<and> (\<forall>d. PlayerDispatch d \<notin> set rest)"
proof (cases name)
  case ABR_STATUS_CHANGED
  with w n show ?thesis by (simp add: fire_abrstatuschanged)
next
  case ERROR
  with w n show ?thesis by (simp add: fire_error)
next
  case TRACKS_CHANGED
  with w n have f: "fire k e c =
           (case onTracksChanged k e (dispatchShakaEvent k e c) of
              Inl err \<Rightarrow> dispatchShakaEvent k e c | Inr c' \<Rightarrow> c')"
    by (simp add: fire_trackschanged)
  consider "shaka_instance c = None" | n where "shaka_instance c = Some (OtherObject n)"
    | p where "shaka_instance c = Some (IsPlayer p)"
    by (cases "shaka_instance c") (auto intro: instance_value.exhaust)
  then show ?thesis
  proof cases
    case 1
    then show ?thesis using f by (simp add: onTracksChanged_none)
  next
    case 2
    then have "shaka_instance (dispatchShakaEvent k e c) = Some (OtherObject n)" by simp
    then show ?thesis using f by (simp add: onTracksChanged_none)
  next
    case 3
    then have "shaka_instance (dispatchShakaEvent k e c) = Some (IsPlayer p)" by simp
    from onTracksChanged_trace [OF this, of k e] obtain c' where
      "onTracksChanged k e (dispatchShakaEvent k e c) = Inr c'"
      "trace (ctx c') = trace (ctx (dispatchShakaEvent k e c)) @ added (createDOMEvent k e) 0
         (filter (\<lambda>item. track_height item \<noteq> JsNull) (getVariantTracks p))"
      by blast
    then show ?thesis using f by (simp add: no_dispatch_added)
  qed
next
  case LOADED
  with w n have f: "fire k e c =
           (case onLoaded k e (dispatchShakaEvent k e c) of
              Inl err \<Rightarrow> dispatchShakaEvent k e c | Inr c' \<Rightarrow> c')"
    by (simp add: fire_loaded)
  from onLoaded_cases [of k e "dispatchShakaEvent k e c"] show ?thesis
    using f by (elim disjE exE) simp_all
next
  case MANIFEST_UPDATED
  with w n have "fire k e c = onManifestUpdated k e (dispatchShakaEvent k e c)"
    by (simp add: fire_manifestupdated)
  then show ?thesis by (simp add: onManifestUpdated_trace)
next
  case VARIANT_CHANGED
  with w n have f: "fire k e c =
           (case onVariantChanged k e (dispatchShakaEvent k e c) of
              Inl err \<Rightarrow> dispatchShakaEvent k e c | Inr c' \<Rightarrow> c')"
    by (simp add: fire_variantchanged)
  from onVariantChanged_cases [of k e "dispatchShakaEvent k e c"] show ?thesis
    using f by (elim disjE exE) simp_all
next
  case ADAPTATION
  with w n have f: "fire k e c =
           (case onVariantChanged k e (dispatchShakaEvent k e c) of
              Inl err \<Rightarrow> dispatchShakaEvent k e c | Inr c' \<Rightarrow> c')"
    by (simp add: fire_variantchanged)
  from onVariantChanged_cases [of k e "dispatchShakaEvent k e c"] show ?thesis
    using f by (elim disjE exE) simp_all
qed

lemma example_setup_runs:
  "ShakaController_setup example_env (ShakaConstructor 1) example_controller =
     Done (state_of (ShakaController_setup example_env (ShakaConstructor 1) example_controller))"
  by (rule setup_runs) (simp_all add: example_env_def)

lemma example_wired_simps:
  "eventManager example_wired =
     eventManager (state_of (ShakaController_setup example_env (ShakaConstructor 1) example_controller))"
  "shaka_instance example_wired =
     Some (IsPlayer \<lparr>player_id = 0, player_ctor = ShakaConstructor 1,
                     getVariantTracks = example_tracks, getMediaElement = Some 7\<rparr>)"
  "ctx example_wired =
     ctx (state_of (ShakaController_setup example_env (ShakaConstructor 1) example_controller))"
  by (simp_all add: example_wired_def)

lemma onUserQualityChange_none:
  "shaka_instance c = None \<or> qualities_auto (ctx c) \<or> qualities_selected (ctx c) = None \<Longrightarrow>
   onUserQualityChange c = Inr c"
  by (auto simp add: onUserQualityChange_def Let_def split: option.splits)

lemma onUserQualityChange_player:
  assumes "shaka_instance c = Some (IsPlayer p)" and "\<not> qualities_auto (ctx c)"
    and "qualities_selected (ctx c) = Some q"
  shows "\<exists>c'. onUserQualityChange c = Inr c' \<and>
           trace (ctx c') =
             trace (ctx c)
               @ Configure (player_id p) (abr_config False)
               # (case find (\<lambda>t. optional_toString (track_id t) = JsVal (quality_id q))
                         (getVariantTracks p) of
                    None \<Rightarrow> []
                  | Some t \<Rightarrow> [SelectVariantTrack (player_id p) t])"
  using assms
  by (simp add: onUserQualityChange_def Let_def disableAutoQuality_def selected_id_def
      split: option.splits)

section \<open>Facts about the loader and the provider\<close>

lemma loadConstructor_resolve:
  "loadConstructor e lib cbs s =
     (case spec_resolve e lib of
        None \<Rightarrow>
          (Inr None,
           case spec_load_error e lib of
             Some err \<Rightarrow> call_onLoadError cbs err (call_onLoadStart cbs s)
           | None \<Rightarrow> s)
      | Some ctor \<Rightarrow>
          (case call_onLoaded cbs ctor (call_onLoadStart cbs s) of
             Done s1 \<Rightarrow> (Inr (Some ctor), s1)
           | Threw err s1 \<Rightarrow>
               if in_try lib then (Inr None, call_onLoadError cbs err s1) else (Inl err, s1)))"
proof (cases lib)
  case (LibString url)
  then show ?thesis
    by (simp add: loadConstructor_def loadShakaScript_def isString_def spec_resolve_def
        spec_load_error_def in_try_def loaded_in_try_def Let_def
        split: option.splits shaka_global.splits outcome.splits)
next
  case LibUndefined
  then show ?thesis
    by (simp add: loadConstructor_def loadShakaScript_def importShaka_def isString_def
        spec_resolve_def spec_load_error_def)
next
  case (LibObject obj outcome)
  show ?thesis
  proof (cases "isShakaConstructor (ValObject obj)")
    case True
    with LibObject show ?thesis
      by (cases "prototype obj")
        (simp_all add: loadConstructor_def loadShakaScript_def importShaka_def isString_def
          spec_resolve_def spec_load_error_def Let_def isShakaConstructor_def in_try_def
          loaded_outside_try_def split: outcome.splits)
  next
    case False
    then have np: "prototype obj \<noteq> OtherPrototype"
      by (cases "prototype obj") (simp_all add: isShakaConstructor_def)
    show ?thesis
    proof (cases "Player obj")
      case (Some ctor)
      with LibObject False np show ?thesis
        by (simp add: loadConstructor_def loadShakaScript_def importShaka_def isString_def
            spec_resolve_def spec_load_error_def Let_def isShakaNamespace_def in_try_def
            loaded_outside_try_def split: outcome.splits)
    next
      case None
      with LibObject False np show ?thesis
        by (simp add: loadConstructor_def loadShakaScript_def importShaka_def isString_def
            spec_resolve_def spec_load_error_def Let_def isShakaNamespace_def importShaka_try_def
            in_try_def loaded_in_try_def
            split: import_outcome.splits js_value.splits option.splits outcome.splits)
    qed
  qed
qed

lemma provider_call_simps [simp]:
  "controller (provider_call a p) = call a (controller p)"
  "provider_ctor (provider_call a p) = provider_ctor p"
  "provider_library (provider_call a p) = provider_library p"
  by (simp_all add: provider_call_def)

lemma startLoading_failed:
  assumes "spec_resolve e lib = None"
  shows "startLoading e lib cb p =
           (Inr None,
            case spec_load_error e lib of
              Some err \<Rightarrow> ShakaLibLoader_onLoadError e err (ShakaLibLoader_onLoadStart p)
            | None \<Rightarrow> p)"
  using assms
  by (simp add: startLoading_def Let_def loadConstructor_resolve call_onLoadError_def
      call_onLoadStart_def split: option.splits)

text \<open>The state in which the loader runs the caller's callback.\<close>

lemma startLoading_resolved:
  assumes "spec_resolve e lib = Some ctor"
    and "cb ctor (provider_call (PlayerDispatch (DOMEvent ''shaka-lib-loaded'' (CtorDetail ctor) None))
            (provider_call (PlayerDispatch (DOMEvent ''shaka-lib-load-start'' NoDetail None)) p))
         = Done p'"
  shows "snd (startLoading e lib cb p) = foldl (\<lambda>q a. provider_call a q) p' (unsupported_calls e)"
    and "fst (startLoading e lib cb p) =
           (case window_shaka e of
              PlayerFunction c supported \<Rightarrow> Inr (if supported then Some ctor else None)
            | _ \<Rightarrow> Inl ThrownTypeError)"
  using assms
  by (simp_all add: startLoading_def Let_def loadConstructor_resolve call_onLoaded_def
      call_onLoadStart_def ShakaLibLoader_onLoaded_def ShakaLibLoader_onLoadStart_def
      unsupported_calls_def split: shaka_global.splits)

lemma startLoading_threw:
  assumes "spec_resolve e lib = Some ctor"
    and "cb ctor (provider_call (PlayerDispatch (DOMEvent ''shaka-lib-loaded'' (CtorDetail ctor) None))
            (provider_call (PlayerDispatch (DOMEvent ''shaka-lib-load-start'' NoDetail None)) p))
         = Threw err p'"
  shows "startLoading e lib cb p =
           (if in_try lib then (Inr None, ShakaLibLoader_onLoadError e err p') else (Inl err, p'))"
  using assms
  by (simp add: startLoading_def Let_def loadConstructor_resolve call_onLoaded_def
      call_onLoadStart_def call_onLoadError_def ShakaLibLoader_onLoaded_def
      ShakaLibLoader_onLoadStart_def)

lemma trace_foldl_provider_call:
  "trace (ctx (controller (foldl (\<lambda>q a. provider_call a q) p as))) =
     trace (ctx (controller p)) @ as"
  "shaka_instance (controller (foldl (\<lambda>q a. provider_call a q) p as)) =
     shaka_instance (controller p)"
  "provider_ctor (foldl (\<lambda>q a. provider_call a q) p as) = provider_ctor p"
  by (induction as arbitrary: p) simp_all

lemma loadSource_player:
  assumes "shaka_instance (controller p) = Some (IsPlayer i)"
  shows "\<exists>p'. ShakaProvider_loadSource s None p = Done p'
           \<and> trace (ctx (controller p')) =
               trace (ctx (controller p)) @
                 (case src s of
                    SrcObject \<Rightarrow> [RemoveSource]
                  | SrcString url \<Rightarrow>
                      [SetPreload [], AppendSource s, Load (player_id i) url, SetCurrentSrc s])
           \<and> shaka_instance (controller p') = shaka_instance (controller p)
           \<and> provider_ctor p' = provider_ctor p"
  using assms
  by (simp add: ShakaProvider_loadSource_def Let_def loadSource_def split: src_value.splits)

lemma setup_callback_done:
  assumes g: "window_shaka e \<noteq> ShakaMissing" and n: "new_result e ctor = NewPlayer"
  shows "\<exists>p'. setup_callback e ctor p = Done p'
     \<and> trace (ctx (controller p')) =
         trace (ctx (controller p))
           @ [PolyfillInstallAll, New ctor (instances_created (ctx (controller p)))]
           @ map (\<lambda>cb. InstanceCallback cb (instances_created (ctx (controller p))))
               (callbacks (controller p))
           @ [Attach (instances_created (ctx (controller p))) (video (controller p)),
              PlayerDispatch (DOMEvent ''shaka-instance''
                (InstanceDetail (instances_created (ctx (controller p)))) None),
              Configure (instances_created (ctx (controller p))) (config (controller p)),
              Notify ''provider-setup'' ProviderSetup None]
           @ source_calls (state_source (ctx (controller p))) (instances_created (ctx (controller p)))
     \<and> shaka_instance (controller p') =
         Some (IsPlayer \<lparr>player_id = instances_created (ctx (controller p)), player_ctor = ctor,
                         getVariantTracks = [], getMediaElement = None\<rparr>)
     \<and> provider_ctor p' = Some ctor"
proof -
  let ?p1 = "p\<lparr>provider_ctor := Some ctor\<rparr>"
  from setup_runs [OF g n, of "controller ?p1"] obtain c where
    c: "ShakaController_setup e ctor (controller p) = Done c"
    by simp
  note f = setup_Done [OF c]
  let ?p3 = "provider_call (Notify ''provider-setup'' ProviderSetup None) (?p1\<lparr>controller := c\<rparr>)"
  have t3: "trace (ctx (controller ?p3)) =
         trace (ctx (controller p))
           @ [PolyfillInstallAll, New ctor (instances_created (ctx (controller p)))]
           @ map (\<lambda>cb. InstanceCallback cb (instances_created (ctx (controller p))))
               (callbacks (controller p))
           @ [Attach (instances_created (ctx (controller p))) (video (controller p)),
              PlayerDispatch (DOMEvent ''shaka-instance''
                (InstanceDetail (instances_created (ctx (controller p)))) None),
              Configure (instances_created (ctx (controller p))) (config (controller p)),
              Notify ''provider-setup'' ProviderSetup None]"
    by (simp add: f)
  have i3: "shaka_instance (controller ?p3) =
         Some (IsPlayer \<lparr>player_id = instances_created (ctx (controller p)), player_ctor = ctor,
                         getVariantTracks = [], getMediaElement = None\<rparr>)"
    by (simp add: f)
  have s3: "state_source (ctx (controller ?p3)) = state_source (ctx (controller p))"
    by (simp add: f)
  show ?thesis
  proof (cases "state_source (ctx (controller p))")
    case None
    then show ?thesis
      using t3 i3 s3 by (simp add: setup_callback_def Let_def c source_calls_def)
  next
    case (Some s)
    from loadSource_player [OF i3, of s] obtain p' where
      p': "ShakaProvider_loadSource s None ?p3 = Done p'"
        "trace (ctx (controller p')) =
               trace (ctx (controller ?p3)) @
                 (case src s of
                    SrcObject \<Rightarrow> [RemoveSource]
                  | SrcString url \<Rightarrow>
                      [SetPreload [], AppendSource s,
                       Load (player_id \<lparr>player_id = instances_created (ctx (controller p)),
                               player_ctor = ctor, getVariantTracks = [],
                               getMediaElement = None\<rparr>) url, SetCurrentSrc s])"
        "shaka_instance (controller p') = shaka_instance (controller ?p3)"
        "provider_ctor p' = provider_ctor ?p3"
      by blast
    have "setup_callback e ctor p = Done p'"
      using Some s3 p'(1) by (simp add: setup_callback_def Let_def c)
    then show ?thesis
      using p'(2,3,4) t3 i3 Some by (simp add: source_calls_def split: src_value.splits)
  qed
qed

lemma setup_callback_threw:
  assumes "ShakaController_setup e ctor (controller p) = Threw err c"
  shows "setup_callback e ctor p = Threw err (p\<lparr>provider_ctor := Some ctor, controller := c\<rparr>)"
  using assms by (simp add: setup_callback_def Let_def)

lemma provider_setup_resolved:
  assumes r: "spec_resolve e (provider_library p) = Some ctor"
    and g: "window_shaka e \<noteq> ShakaMissing" and n: "new_result e ctor = NewPlayer"
  shows "trace (ctx (controller (ShakaProvider_setup e p))) =
     trace (ctx (controller p))
       @ [SuperSetup,
          PlayerDispatch (DOMEvent ''shaka-lib-load-start'' NoDetail None),
          PlayerDispatch (DOMEvent ''shaka-lib-loaded'' (CtorDetail ctor) None),
          PolyfillInstallAll, New ctor (instances_created (ctx (controller p)))]
       @ map (\<lambda>cb. InstanceCallback cb (instances_created (ctx (controller p))))
           (callbacks (controller p))
       @ [Attach (instances_created (ctx (controller p))) (video (controller p)),
          PlayerDispatch (DOMEvent ''shaka-instance''
            (InstanceDetail (instances_created (ctx (controller p)))) None),
          Configure (instances_created (ctx (controller p))) (config (controller p)),
          Notify ''provider-setup'' ProviderSetup None]
       @ source_calls (state_source (ctx (controller p))) (instances_created (ctx (controller p)))
       @ unsupported_calls e"
    and "shaka_instance (controller (ShakaProvider_setup e p)) =
     Some (IsPlayer \<lparr>player_id = instances_created (ctx (controller p)), player_ctor = ctor,
                     getVariantTracks = [], getMediaElement = None\<rparr>)"
    and "provider_ctor (ShakaProvider_setup e p) = Some ctor"
proof -
  let ?q = "provider_call (PlayerDispatch (DOMEvent ''shaka-lib-loaded'' (CtorDetail ctor) None))
            (provider_call (PlayerDispatch (DOMEvent ''shaka-lib-load-start'' NoDetail None))
               (provider_call SuperSetup p))"
  from setup_callback_done [OF g n, of ?q] obtain p' where
    p': "setup_callback e ctor ?q = Done p'"
      "trace (ctx (controller p')) =
         trace (ctx (controller ?q))
           @ [PolyfillInstallAll, New ctor (instances_created (ctx (controller ?q)))]
           @ map (\<lambda>cb. InstanceCallback cb (instances_created (ctx (controller ?q))))
               (callbacks (controller ?q))
           @ [Attach (instances_created (ctx (controller ?q))) (video (controller ?q)),
              PlayerDispatch (DOMEvent ''shaka-instance''
                (InstanceDetail (instances_created (ctx (controller ?q)))) None),
              Configure (instances_created (ctx (controller ?q))) (config (controller ?q)),
              Notify ''provider-setup'' ProviderSetup None]
           @ source_calls (state_source (ctx (controller ?q))) (instances_created (ctx (controller ?q)))"
      "shaka_instance (controller p') =
         Some (IsPlayer \<lparr>player_id = instances_created (ctx (controller ?q)), player_ctor = ctor,
                         getVariantTracks = [], getMediaElement = None\<rparr>)"
      "provider_ctor p' = Some ctor"
    by blast
  have r': "spec_resolve e (provider_library (provider_call SuperSetup p)) = Some ctor"
    using r by simp
  have s: "ShakaProvider_setup e p = foldl (\<lambda>q a. provider_call a q) p' (unsupported_calls e)"
    using startLoading_resolved(1) [where cb = "setup_callback e", OF r' p'(1)]
    by (simp add: ShakaProvider_setup_def Let_def ShakaLibLoader_new_def)
  show "trace (ctx (controller (ShakaProvider_setup e p))) =
     trace (ctx (controller p))
       @ [SuperSetup,
          PlayerDispatch (DOMEvent ''shaka-lib-load-start'' NoDetail None),
          PlayerDispatch (DOMEvent ''shaka-lib-loaded'' (CtorDetail ctor) None),
          PolyfillInstallAll, New ctor (instances_created (ctx (controller p)))]
       @ map (\<lambda>cb. InstanceCallback cb (instances_created (ctx (controller p))))
           (callbacks (controller p))
       @ [Attach (instances_created (ctx (controller p))) (video (controller p)),
          PlayerDispatch (DOMEvent ''shaka-instance''
            (InstanceDetail (instances_created (ctx (controller p)))) None),
          Configure (instances_created (ctx (controller p))) (config (controller p)),
          Notify ''provider-setup'' ProviderSetup None]
       @ source_calls (state_source (ctx (controller p))) (instances_created (ctx (controller p)))
       @ unsupported_calls e"
    using p'(2) by (simp add: s trace_foldl_provider_call)
  show "shaka_instance (controller (ShakaProvider_setup e p)) =
     Some (IsPlayer \<lparr>player_id = instances_created (ctx (controller p)), player_ctor = ctor,
                     getVariantTracks = [], getMediaElement = None\<rparr>)"
    using p'(3) by (simp add: s trace_foldl_provider_call)
  show "provider_ctor (ShakaProvider_setup e p) = Some ctor"
    using p'(4) by (simp add: s trace_foldl_provider_call)
qed

lemma provider_setup_failed:
  assumes "spec_resolve e (provider_library p) = None"
  shows "ShakaProvider_setup e p =
     (case spec_load_error e (provider_library p) of
        None \<Rightarrow> provider_call SuperSetup p
      | Some err \<Rightarrow>
          provider_call
            (Notify ''error'' (MediaError (message (coerceToError e err)) 4
               (Some (coerceToError e err))) None)
            (provider_call
               (PlayerDispatch (DOMEvent ''shaka-lib-load-error''
                  (ErrorDetail (coerceToError e err)) None))
               (provider_call (PlayerDispatch (DOMEvent ''shaka-lib-load-start'' NoDetail None))
                  (provider_call SuperSetup p))))"
  using assms
  by (simp add: ShakaProvider_setup_def Let_def ShakaLibLoader_new_def startLoading_failed
      ShakaLibLoader_onLoadError_def ShakaLibLoader_onLoadStart_def split: option.splits)

text \<open>
  With the constructor obtained but the global missing, setup throws before \<^verbatim>\<open>new ctor()\<close>:
  the provider keeps the constructor and builds nothing. The library is then no string,
  and from a direct reference or a namespace the throw rejects the loader's promise.
\<close>

lemma provider_setup_without_global:
  assumes r: "spec_resolve e (provider_library p) = Some ctor"
    and g: "window_shaka e = ShakaMissing" and t: "\<not> in_try (provider_library p)"
  shows "ShakaProvider_setup e p =
     (provider_call (PlayerDispatch (DOMEvent ''shaka-lib-loaded'' (CtorDetail ctor) None))
        (provider_call (PlayerDispatch (DOMEvent ''shaka-lib-load-start'' NoDetail None))
           (provider_call SuperSetup p)))\<lparr>provider_ctor := Some ctor\<rparr>"
proof -
  let ?q = "provider_call (PlayerDispatch (DOMEvent ''shaka-lib-loaded'' (CtorDetail ctor) None))
            (provider_call (PlayerDispatch (DOMEvent ''shaka-lib-load-start'' NoDetail None))
               (provider_call SuperSetup p))"
  have c: "setup_callback e ctor ?q = Threw ThrownReferenceError (?q\<lparr>provider_ctor := Some ctor\<rparr>)"
    using setup_callback_threw [OF setup_without_global [OF g], of ctor ?q] by simp
  have r': "spec_resolve e (provider_library (provider_call SuperSetup p)) = Some ctor"
    using r by simp
  show ?thesis
    using startLoading_threw [where cb = "setup_callback e", OF r' c] t
    by (simp add: ShakaProvider_setup_def Let_def ShakaLibLoader_new_def)
qed

text \<open>
  With a value taken for the constructor whose \<^verbatim>\<open>new\<close> gives no player, setup stops at
  its first \<^verbatim>\<open>listen\<close>: no callback is run, nothing is attached or configured.
\<close>

lemma provider_setup_no_player:
  assumes r: "spec_resolve e (provider_library p) = Some ctor"
    and g: "window_shaka e \<noteq> ShakaMissing" and n: "new_result e ctor = NewOther"
    and t: "\<not> in_try (provider_library p)"
  shows "trace (ctx (controller (ShakaProvider_setup e p))) =
     trace (ctx (controller p))
       @ [SuperSetup,
          PlayerDispatch (DOMEvent ''shaka-lib-load-start'' NoDetail None),
          PlayerDispatch (DOMEvent ''shaka-lib-loaded'' (CtorDetail ctor) None),
          PolyfillInstallAll, New ctor (instances_created (ctx (controller p)))]"
    and "shaka_instance (controller (ShakaProvider_setup e p)) =
           Some (OtherObject (instances_created (ctx (controller p))))"
proof -
  let ?q = "provider_call (PlayerDispatch (DOMEvent ''shaka-lib-loaded'' (CtorDetail ctor) None))
            (provider_call (PlayerDispatch (DOMEvent ''shaka-lib-load-start'' NoDetail None))
               (provider_call SuperSetup p))"
  from setup_no_player [OF g n, of "controller ?q"] obtain c where
    c: "ShakaController_setup e ctor (controller ?q) = Threw ThrownTypeError c"
      "trace (ctx c) = trace (ctx (controller ?q))
         @ [PolyfillInstallAll, New ctor (instances_created (ctx (controller ?q)))]"
      "shaka_instance c = Some (OtherObject (instances_created (ctx (controller ?q))))"
    by blast
  have r': "spec_resolve e (provider_library (provider_call SuperSetup p)) = Some ctor"
    using r by simp
  have s: "ShakaProvider_setup e p = ?q\<lparr>provider_ctor := Some ctor, controller := c\<rparr>"
    using startLoading_threw [where cb = "setup_callback e", OF r' setup_callback_threw [OF c(1)]] t
    by (simp add: ShakaProvider_setup_def Let_def ShakaLibLoader_new_def)
  show "trace (ctx (controller (ShakaProvider_setup e p))) =
     trace (ctx (controller p))
       @ [SuperSetup,
          PlayerDispatch (DOMEvent ''shaka-lib-load-start'' NoDetail None),
          PlayerDispatch (DOMEvent ''shaka-lib-loaded'' (CtorDetail ctor) None),
          PolyfillInstallAll, New ctor (instances_created (ctx (controller p)))]"
    using c(2) by (simp add: s)
  show "shaka_instance (controller (ShakaProvider_setup e p)) =
           Some (OtherObject (instances_created (ctx (controller p))))"
    using c(3) by (simp add: s)
qed








lemma example_provider_simps:
  "provider_library example_provider = LibString (default_library False)"
  "callbacks (controller example_provider) = [3, 4]"
  "config (controller example_provider) = example_config"
  "video (controller example_provider) = Some 7"
  "trace (ctx (controller example_provider)) = []"
  "instances_created (ctx (controller example_provider)) = 0"
  "state_source (ctx (controller example_provider)) = None"
  by (simp_all add: example_provider_def ShakaProvider_onInstance_def ShakaProvider_new_def
      ShakaController_new_def onInstance_def Let_def example_env_def example_context_def)

lemma example_wired_ctx:
  "qualities_getById (ctx example_wired) ''5'' = Some example_quality"
  "\<not> qualities_auto (ctx example_wired)"
  "qualities_selected (ctx example_wired) = Some example_quality"
proof -
  have c: "ctx example_wired =
     (ctx example_controller)\<lparr>trace := trace (ctx example_controller)
                 @ [PolyfillInstallAll,
                    New (ShakaConstructor 1) (instances_created (ctx example_controller))]
                 @ map (\<lambda>cb. InstanceCallback cb (instances_created (ctx example_controller)))
                     (callbacks example_controller)
                 @ [Attach (instances_created (ctx example_controller)) (video example_controller),
                    PlayerDispatch (DOMEvent ''shaka-instance''
                      (InstanceDetail (instances_created (ctx example_controller))) None),
                    Configure (instances_created (ctx example_controller))
                      (config example_controller)],
             instances_created := Suc (instances_created (ctx example_controller)),
             qualities_enableAuto := True,
             qualities_change_listeners :=
               Suc (qualities_change_listeners (ctx example_controller))\<rparr>"
    by (simp only: example_wired_simps(3) setup_Done(6) [OF example_setup_runs])
  show "qualities_getById (ctx example_wired) ''5'' = Some example_quality"
    by (simp add: c example_controller_def ShakaController_new_def example_context_def)
  show "\<not> qualities_auto (ctx example_wired)"
    by (simp add: c example_controller_def ShakaController_new_def example_context_def)
  show "qualities_selected (ctx example_wired) = Some example_quality"
    by (simp add: c example_controller_def ShakaController_new_def example_context_def)
qed

section \<open>The claims\<close>

text \<open>
  C1. Setup binds, for every name of \<open>ShakaLibEventName\<close>, a listener on the player
  instance that dispatches the event it receives on the host player as a DOM event of type
  \<^verbatim>\<open>shaka-\<close> followed by the kebab-cased event type, with the event as its detail. When
  the player fires an event of that name, this dispatch is the first call made, and the
  other listeners dispatch nothing more on the host player.
\<close>

theorem C1_setup_redispatches_every_event:
  assumes "ShakaController_setup en ctor c0 = Done c1"
    and "eventManager c = eventManager c1"
    and "event_type e = event_name_value name"
  shows "(\<exists>ls. eventManager c1 = Some ls \<and> (name, DispatchShakaEvent) \<in> set ls)
       \<and> run_handler k DispatchShakaEvent e c =
           Inr (call (PlayerDispatch (DOMEvent (''shaka-'' @ k (event_type e)) (EventDetail e) None)) c)
       \<and> (\<exists>rest. trace (ctx (fire k e c)) =
             trace (ctx c)
               @ PlayerDispatch (DOMEvent (''shaka-'' @ k (event_type e)) (EventDetail e) None) # rest
           \<and> (\<forall>d. PlayerDispatch d \<notin> set rest))"
proof -
  have reg: "(name, DispatchShakaEvent) \<in> set wired"
    by (cases name) (simp_all add: wired_def)
  have w: "eventManager c = Some wired"
    using assms(2) setup_Done(1) [OF assms(1)] by simp
  have d: "createDOMEvent k e = DOMEvent (''shaka-'' @ k (event_type e)) (EventDetail e) None"
    by (simp add: createDOMEvent_def toDOMEventType_def)
  have h: "run_handler k DispatchShakaEvent e c =
           Inr (call (PlayerDispatch (DOMEvent (''shaka-'' @ k (event_type e)) (EventDetail e) None)) c)"
    by (simp add: run_handler_def dispatchShakaEvent_def d)
  from fire_dispatches_first [OF w assms(3), of k] reg h show ?thesis
    by (simp add: setup_Done(1) [OF assms(1)] d)
qed

theorem C1_witness:
  "ShakaController_setup example_env (ShakaConstructor 1) example_controller =
     Done (state_of (ShakaController_setup example_env (ShakaConstructor 1) example_controller))
   \<and> event_type (example_event ''trackschanged'') = event_name_value TRACKS_CHANGED
   \<and> (\<exists>rest. trace (ctx (fire (\<lambda>t. t) (example_event ''trackschanged'') example_wired)) =
             trace (ctx example_wired)
               @ PlayerDispatch (DOMEvent ''shaka-trackschanged''
                   (EventDetail (example_event ''trackschanged'')) None) # rest
           \<and> (\<forall>d. PlayerDispatch d \<notin> set rest))"
proof -
  have h2: "event_type (example_event ''trackschanged'') = event_name_value TRACKS_CHANGED"
    by (simp add: example_event_def)
  show ?thesis
    using C1_setup_redispatches_every_event
      [OF example_setup_runs example_wired_simps(1) h2, of "\<lambda>t. t"] h2 example_setup_runs
    by (simp add: example_event_def)
qed

text \<open>
  C2. The two awaits of the library loader resolve the constructor that the order of forms
  of \<open>spec_resolve\<close> gives: a string is loaded as a remote script and yields
  \<^verbatim>\<open>window.shaka.Player\<close>; otherwise a direct constructor reference; otherwise a namespace's
  \<^verbatim>\<open>Player\<close>; otherwise the default export of the dynamic import, or its \<^verbatim>\<open>Player\<close>. The
  callbacks run once for the form that decided, and where the success callback returns, the
  constructor resolved is the value returned (where it throws, the throw is handed to
  \<^verbatim>\<open>onLoadError\<close> in the forms that run it inside a \<^verbatim>\<open>try\<close>, and rejects the promise in the
  others). For a string the result is that of the script alone: the import path is not
  entered, also when the script fails. Where the browser is supported, the promise of
  \<^verbatim>\<open>#startLoading\<close> settles likewise.
\<close>

theorem C2_loader_resolution_order:
  "loadConstructor e lib cbs s =
     (case spec_resolve e lib of
        Some ctor \<Rightarrow>
          (case call_onLoaded cbs ctor (call_onLoadStart cbs s) of
             Done s1 \<Rightarrow> (Inr (Some ctor), s1)
           | Threw err s1 \<Rightarrow>
               if in_try lib then (Inr None, call_onLoadError cbs err s1) else (Inl err, s1))
      | None \<Rightarrow>
          (Inr None,
           case spec_load_error e lib of
             Some err \<Rightarrow> call_onLoadError cbs err (call_onLoadStart cbs s)
           | None \<Rightarrow> s))
   \<and> (isString lib \<longrightarrow>
        loadConstructor e lib cbs s =
          (case loadShakaScript e lib cbs s of (ctor, s1) \<Rightarrow> (Inr ctor, s1)))
   \<and> (\<forall>w. window_shaka e = PlayerFunction w True \<longrightarrow>
        fst (startLoading e lib cb p) =
          (case spec_resolve e lib of
             None \<Rightarrow> Inr None
           | Some ctor \<Rightarrow>
               (case cb ctor
                       (provider_call
                          (PlayerDispatch (DOMEvent ''shaka-lib-loaded'' (CtorDetail ctor) None))
                          (provider_call
                             (PlayerDispatch (DOMEvent ''shaka-lib-load-start'' NoDetail None)) p)) of
                  Done p1 \<Rightarrow> Inr (Some ctor)
                | Threw err p1 \<Rightarrow> if in_try lib then Inr None else Inl err)))"
proof -
  have a: "isString lib \<longrightarrow>
        loadConstructor e lib cbs s =
          (case loadShakaScript e lib cbs s of (ctor, s1) \<Rightarrow> (Inr ctor, s1))"
    by (simp add: loadConstructor_def split: prod.splits)
  have b: "fst (startLoading e lib cb p) =
          (case spec_resolve e lib of
             None \<Rightarrow> Inr None
           | Some ctor \<Rightarrow>
               (case cb ctor
                       (provider_call
                          (PlayerDispatch (DOMEvent ''shaka-lib-loaded'' (CtorDetail ctor) None))
                          (provider_call
                             (PlayerDispatch (DOMEvent ''shaka-lib-load-start'' NoDetail None)) p)) of
                  Done p1 \<Rightarrow> Inr (Some ctor)
                | Threw err p1 \<Rightarrow> if in_try lib then Inr None else Inl err))"
    if w: "window_shaka e = PlayerFunction w True" for w
  proof (cases "spec_resolve e lib")
    case None
    then show ?thesis by (simp add: startLoading_failed)
  next
    case (Some ctor)
    show ?thesis
    proof (cases "cb ctor
                       (provider_call
                          (PlayerDispatch (DOMEvent ''shaka-lib-loaded'' (CtorDetail ctor) None))
                          (provider_call
                             (PlayerDispatch (DOMEvent ''shaka-lib-load-start'' NoDetail None)) p))")
      case (Done p1)
      from startLoading_resolved(2) [where cb = cb, OF Some Done] w Some Done
      show ?thesis by simp
    next
      case (Threw err p1)
      from startLoading_threw [where cb = cb, OF Some Threw] Some Threw
      show ?thesis by simp
    qed
  qed
  have c: "loadConstructor e lib cbs s =
     (case spec_resolve e lib of
        Some ctor \<Rightarrow>
          (case call_onLoaded cbs ctor (call_onLoadStart cbs s) of
             Done s1 \<Rightarrow> (Inr (Some ctor), s1)
           | Threw err s1 \<Rightarrow>
               if in_try lib then (Inr None, call_onLoadError cbs err s1) else (Inl err, s1))
      | None \<Rightarrow>
          (Inr None,
           case spec_load_error e lib of
             Some err \<Rightarrow> call_onLoadError cbs err (call_onLoadStart cbs s)
           | None \<Rightarrow> s))"
    by (simp add: loadConstructor_resolve split: option.splits)
  from a b c show ?thesis by blast
qed

theorem C2_witness:
  "isString (LibString ''https://example.org/none.js'')
   \<and> window_shaka example_env = PlayerFunction (ShakaConstructor 1) True
   \<and> loadConstructor example_env (LibString ''https://example.org/none.js'')
        \<lparr>cb_onLoadStart = Some (\<lambda>s. s @ ''S''), cb_onLoaded = Some (\<lambda>c s. Done (s @ ''L'')),
         cb_onLoadError = Some (\<lambda>err s. s @ ''E'')\<rparr> [] = (Inr None, ''SE'')
   \<and> loadConstructor example_env example_function_loader
        \<lparr>cb_onLoadStart = Some (\<lambda>s. s @ ''S''), cb_onLoaded = Some (\<lambda>c s. Done (s @ ''L'')),
         cb_onLoadError = Some (\<lambda>err s. s @ ''E'')\<rparr> [] = (Inr (Some (ShakaConstructor 2)), ''SL'')
   \<and> fst (startLoading example_env (LibString ''https://example.org/none.js'')
          (setup_callback example_env) example_provider) = Inr None
   \<and> fst (startLoading example_env (LibString (default_library False))
          (setup_callback example_env) example_provider) = Inr (Some (ShakaConstructor 1))"
proof -
  let ?cbs = "\<lparr>cb_onLoadStart = Some (\<lambda>s. s @ ''S''), cb_onLoaded = Some (\<lambda>c s. Done (s @ ''L'')),
         cb_onLoadError = Some (\<lambda>err s. s @ ''E'')\<rparr>"
  have h1: "isString (LibString ''https://example.org/none.js'')"
    by (simp add: isString_def)
  have h2: "window_shaka example_env = PlayerFunction (ShakaConstructor 1) True"
    by (simp add: example_env_def)
  have n: "''https://example.org/none.js'' \<noteq> default_library False"
    by (simp add: default_library_def)
  have r: "spec_resolve example_env (LibString ''https://example.org/none.js'') = None"
    using n by (simp add: spec_resolve_def example_env_def)
  have r2: "spec_resolve example_env (LibString (default_library False)) = Some (ShakaConstructor 1)"
    by (simp add: spec_resolve_def example_env_def)
  have r3: "spec_resolve example_env example_function_loader = Some (ShakaConstructor 2)"
    by (simp add: spec_resolve_def example_function_loader_def)
  have le: "spec_load_error example_env (LibString ''https://example.org/none.js'')
              = Some (ThrownValue 0)"
    using n by (simp add: spec_load_error_def example_env_def)
  from conjunct1 [OF C2_loader_resolution_order
      [of example_env "LibString ''https://example.org/none.js''" ?cbs "[]"]] r le
  have a: "loadConstructor example_env (LibString ''https://example.org/none.js'') ?cbs []
             = (Inr None, ''SE'')"
    by (simp add: call_onLoadError_def call_onLoadStart_def)
  from conjunct1 [OF C2_loader_resolution_order [of example_env example_function_loader ?cbs "[]"]] r3
  have a2: "loadConstructor example_env example_function_loader ?cbs []
             = (Inr (Some (ShakaConstructor 2)), ''SL'')"
    by (simp add: call_onLoaded_def call_onLoadStart_def)
  from conjunct2 [OF conjunct2 [OF C2_loader_resolution_order
      [of example_env "LibString ''https://example.org/none.js''" ?cbs "[]"
        "setup_callback example_env" example_provider]]] h2 r
  have b: "fst (startLoading example_env (LibString ''https://example.org/none.js'')
          (setup_callback example_env) example_provider) = Inr None"
    by simp
  have g: "window_shaka example_env \<noteq> ShakaMissing"
    by (simp add: example_env_def)
  have np: "new_result example_env (ShakaConstructor 1) = NewPlayer"
    by (simp add: example_env_def)
  from setup_callback_done [OF g np] obtain p' where
    d: "setup_callback example_env (ShakaConstructor 1)
          (provider_call
             (PlayerDispatch (DOMEvent ''shaka-lib-loaded'' (CtorDetail (ShakaConstructor 1)) None))
             (provider_call (PlayerDispatch (DOMEvent ''shaka-lib-load-start'' NoDetail None))
                example_provider)) = Done p'"
    by blast
  from conjunct2 [OF conjunct2 [OF C2_loader_resolution_order
      [of example_env "LibString (default_library False)" ?cbs "[]"
        "setup_callback example_env" example_provider]]] h2 r2 d
  have c: "fst (startLoading example_env (LibString (default_library False))
          (setup_callback example_env) example_provider) = Inr (Some (ShakaConstructor 1))"
    by simp
  from h1 h2 a a2 b c show ?thesis by blast
qed

text \<open>
  C3. When the player fires \<^verbatim>\<open>manifestupdated\<close>, the controller, after re-dispatching the
  event, marks the host quality selection as automatic (\<^verbatim>\<open>setAuto(true)\<close>) and notifies
  \<^verbatim>\<open>stream-type-change\<close> with \<^verbatim>\<open>live\<close> exactly when the event's \<open>isLive\<close> is true, and
  with \<^verbatim>\<open>on-demand\<close> otherwise.
\<close>

theorem C3_manifest_updated_sets_stream_type:
  assumes "ShakaController_setup en ctor c0 = Done c1"
    and "eventManager c = eventManager c1"
    and "event_type e = ''manifestupdated''"
  shows "trace (ctx (fire k e c)) =
           trace (ctx c)
             @ [PlayerDispatch (createDOMEvent k e),
                QualitiesSetAuto True (createDOMEvent k e),
                Notify ''stream-type-change''
                  (StreamType (if event_isLive e = JsVal True then ''live'' else ''on-demand''))
                  (Some (createDOMEvent k e))]"
proof -
  have w: "eventManager c = Some wired"
    using assms(2) setup_Done(1) [OF assms(1)] by simp
  show ?thesis
    by (simp add: fire_manifestupdated [OF w assms(3)] onManifestUpdated_trace)
qed

theorem C3_witness:
  "event_type ((example_event ''manifestupdated'')\<lparr>event_isLive := JsVal True\<rparr>) = ''manifestupdated''
   \<and> trace (ctx (fire (\<lambda>t. t) ((example_event ''manifestupdated'')\<lparr>event_isLive := JsVal True\<rparr>)
         example_wired)) =
       trace (ctx example_wired)
         @ [PlayerDispatch (DOMEvent ''shaka-manifestupdated''
              (EventDetail ((example_event ''manifestupdated'')\<lparr>event_isLive := JsVal True\<rparr>)) None),
            QualitiesSetAuto True (DOMEvent ''shaka-manifestupdated''
              (EventDetail ((example_event ''manifestupdated'')\<lparr>event_isLive := JsVal True\<rparr>)) None),
            Notify ''stream-type-change'' (StreamType ''live'')
              (Some (DOMEvent ''shaka-manifestupdated''
              (EventDetail ((example_event ''manifestupdated'')\<lparr>event_isLive := JsVal True\<rparr>)) None))]"
proof -
  have h2: "event_type ((example_event ''manifestupdated'')\<lparr>event_isLive := JsVal True\<rparr>) = ''manifestupdated''"
    by (simp add: example_event_def)
  show ?thesis
    using C3_manifest_updated_sets_stream_type
      [OF example_setup_runs example_wired_simps(1) h2, of "\<lambda>t. t"] h2
    by (simp add: createDOMEvent_def toDOMEventType_def example_event_def)
qed

text \<open>
  C4. On \<^verbatim>\<open>trackschanged\<close>, after the re-dispatch, one quality is added to the host list for
  each variant track of the instance whose height is not null, in order: its id is the
  track id as a string, or \<^verbatim>\<open>dash-bitrate-\<close> and the index when the id is nullish; width,
  height and bitrate are the track's, or 0 when nullish; the codec is the track's
  \<open>videoCodec\<close>; the index is the position among the tracks kept. Tracks of null height
  add nothing.
\<close>

theorem C4_tracks_changed_adds_qualities:
  assumes "ShakaController_setup en ctor c0 = Done c1"
    and "eventManager c = eventManager c1"
    and "event_type e = ''trackschanged''"
    and "shaka_instance c = Some (IsPlayer p)"
  shows "trace (ctx (fire k e c)) =
           trace (ctx c)
             @ PlayerDispatch (createDOMEvent k e)
             # map (\<lambda>(index, item).
                     QualitiesAdd
                       \<lparr>quality_id = (case track_id item of
                                        JsVal n \<Rightarrow> toString n
                                      | _ \<Rightarrow> ''dash-bitrate-'' @ string_of_nat index),
                        quality_width = (case track_width item of JsVal n \<Rightarrow> n | _ \<Rightarrow> 0),
                        quality_height = (case track_height item of JsVal n \<Rightarrow> n | _ \<Rightarrow> 0),
                        quality_bitrate = (case track_bandwidth item of JsVal n \<Rightarrow> n | _ \<Rightarrow> 0),
                        quality_codec = track_videoCodec item,
                        quality_index = index\<rparr>
                       (createDOMEvent k e))
                 (enumerate 0 (filter (\<lambda>item. track_height item \<noteq> JsNull) (getVariantTracks p)))"
proof -
  have w: "eventManager c = Some wired"
    using assms(2) setup_Done(1) [OF assms(1)] by simp
  have q: "quality_of item index =
            \<lparr>quality_id = (case track_id item of
                             JsVal n \<Rightarrow> toString n
                           | _ \<Rightarrow> ''dash-bitrate-'' @ string_of_nat index),
             quality_width = (case track_width item of JsVal n \<Rightarrow> n | _ \<Rightarrow> 0),
             quality_height = (case track_height item of JsVal n \<Rightarrow> n | _ \<Rightarrow> 0),
             quality_bitrate = (case track_bandwidth item of JsVal n \<Rightarrow> n | _ \<Rightarrow> 0),
             quality_codec = track_videoCodec item,
             quality_index = index\<rparr>" for item index
    by (simp add: quality_of_def split: nullish.splits)
  have i: "shaka_instance (dispatchShakaEvent k e c) = Some (IsPlayer p)"
    using assms(4) by simp
  from onTracksChanged_trace [OF i, of k e] obtain c' where
    c': "onTracksChanged k e (dispatchShakaEvent k e c) = Inr c'"
      "trace (ctx c') = trace (ctx (dispatchShakaEvent k e c)) @ added (createDOMEvent k e) 0
         (filter (\<lambda>item. track_height item \<noteq> JsNull) (getVariantTracks p))"
    by blast
  show ?thesis
    by (simp add: fire_trackschanged [OF w assms(3)] c' added_def q)
qed

theorem C4_witness:
  "event_type (example_event ''trackschanged'') = ''trackschanged''
   \<and> trace (ctx (fire (\<lambda>t. t) (example_event ''trackschanged'') example_wired)) =
       trace (ctx example_wired)
         @ [PlayerDispatch (DOMEvent ''shaka-trackschanged''
              (EventDetail (example_event ''trackschanged'')) None),
            QualitiesAdd
              \<lparr>quality_id = ''5'', quality_width = 1280, quality_height = 720,
               quality_bitrate = 0, quality_codec = JsVal ''avc1'', quality_index = 0\<rparr>
              (DOMEvent ''shaka-trackschanged'' (EventDetail (example_event ''trackschanged'')) None),
            QualitiesAdd
              \<lparr>quality_id = ''dash-bitrate-1'', quality_width = 1280, quality_height = 1080,
               quality_bitrate = 0, quality_codec = JsVal ''avc1'', quality_index = 1\<rparr>
              (DOMEvent ''shaka-trackschanged'' (EventDetail (example_event ''trackschanged'')) None)]"
proof -
  have h2: "event_type (example_event ''trackschanged'') = ''trackschanged''"
    by (simp add: example_event_def)
  have s5: "toString 5 = ''5''"
    by (simp add: toString_def string_of_nat.simps digit_char_def)
  have s1: "string_of_nat (Suc 0) = ''1''"
    by (simp add: string_of_nat.simps digit_char_def)
  show ?thesis
    using C4_tracks_changed_adds_qualities
      [OF example_setup_runs example_wired_simps(1) h2 example_wired_simps(2), of "\<lambda>t. t"] h2
    by (simp add: createDOMEvent_def toDOMEventType_def example_tracks_def example_track_def
        enumerate_eq_zip upt_rec s5 s1)
qed

text \<open>
  C5. On \<^verbatim>\<open>variantchanged\<close> and on \<^verbatim>\<open>adaptation\<close>, when \<open>newTrack\<close> is a track (with a
  numeric id, as its type says), the controller selects the host quality that \<open>getById\<close>
  gives for the id as a string; when \<open>newTrack\<close> is null (or missing) the handler changes
  nothing and the only call made is the re-dispatch of the event.
\<close>

theorem C5_variant_changed_selects_quality:
  assumes "ShakaController_setup en ctor c0 = Done c1"
    and "eventManager c = eventManager c1"
    and "event_type e = ''variantchanged'' \<or> event_type e = ''adaptation''"
  shows "(\<forall>t n. event_newTrack e = JsVal t \<longrightarrow> track_id t = JsVal n \<longrightarrow>
            trace (ctx (fire k e c)) =
              trace (ctx c)
                @ [PlayerDispatch (createDOMEvent k e),
                   QualitiesSelect (qualities_getById (ctx c) (toString n)) True
                     (createDOMEvent k e)])
       \<and> (event_newTrack e = JsNull \<or> event_newTrack e = JsUndefined \<longrightarrow>
            onVariantChanged k e c = Inr c
            \<and> trace (ctx (fire k e c)) = trace (ctx c) @ [PlayerDispatch (createDOMEvent k e)])"
proof -
  have w: "eventManager c = Some wired"
    using assms(2) setup_Done(1) [OF assms(1)] by simp
  note f = fire_variantchanged [OF w assms(3), of k]
  have a: "trace (ctx (fire k e c)) =
              trace (ctx c)
                @ [PlayerDispatch (createDOMEvent k e),
                   QualitiesSelect (qualities_getById (ctx c) (toString n)) True
                     (createDOMEvent k e)]"
    if "event_newTrack e = JsVal t" and "track_id t = JsVal n" for t n
    using that by (simp add: f onVariantChanged_select)
  have b: "onVariantChanged k e c = Inr c
            \<and> trace (ctx (fire k e c)) = trace (ctx c) @ [PlayerDispatch (createDOMEvent k e)]"
    if "event_newTrack e = JsNull \<or> event_newTrack e = JsUndefined"
    using that by (auto simp add: f onVariantChanged_falsy)
  from a b show ?thesis by blast
qed

theorem C5_witness:
  "(event_type example_variantchanged = ''variantchanged''
      \<or> event_type example_variantchanged = ''adaptation'')
   \<and> event_newTrack example_variantchanged = JsVal (example_track (JsVal 5) (JsVal 720))
   \<and> track_id (example_track (JsVal 5) (JsVal 720)) = JsVal 5
   \<and> trace (ctx (fire (\<lambda>t. t) example_variantchanged example_wired)) =
       trace (ctx example_wired)
         @ [PlayerDispatch (DOMEvent ''shaka-variantchanged'' (EventDetail example_variantchanged) None),
            QualitiesSelect (Some example_quality) True
              (DOMEvent ''shaka-variantchanged'' (EventDetail example_variantchanged) None)]
   \<and> event_newTrack example_adaptation = JsNull
   \<and> trace (ctx (fire (\<lambda>t. t) example_adaptation example_wired)) =
       trace (ctx example_wired)
         @ [PlayerDispatch (DOMEvent ''shaka-adaptation'' (EventDetail example_adaptation) None)]"
proof -
  have h1: "event_type example_variantchanged = ''variantchanged''
      \<or> event_type example_variantchanged = ''adaptation''"
    by (simp add: example_variantchanged_def example_event_def)
  have h2: "event_type example_adaptation = ''variantchanged''
      \<or> event_type example_adaptation = ''adaptation''"
    by (simp add: example_adaptation_def example_event_def)
  have t1: "event_newTrack example_variantchanged = JsVal (example_track (JsVal 5) (JsVal 720))"
    by (simp add: example_variantchanged_def)
  have t2: "track_id (example_track (JsVal 5) (JsVal 720)) = JsVal 5"
    by (simp add: example_track_def)
  have t3: "event_newTrack example_adaptation = JsNull"
    by (simp add: example_adaptation_def)
  have s5: "toString 5 = ''5''"
    by (simp add: toString_def string_of_nat.simps digit_char_def)
  have g: "qualities_getById (ctx example_wired) ''5'' = Some example_quality"
    by (rule example_wired_ctx(1))
  have k1: "createDOMEvent (\<lambda>t. t) example_variantchanged =
              DOMEvent ''shaka-variantchanged'' (EventDetail example_variantchanged) None"
    by (simp add: createDOMEvent_def toDOMEventType_def example_variantchanged_def example_event_def)
  have k2: "createDOMEvent (\<lambda>t. t) example_adaptation =
              DOMEvent ''shaka-adaptation'' (EventDetail example_adaptation) None"
    by (simp add: createDOMEvent_def toDOMEventType_def example_adaptation_def example_event_def)
  from C5_variant_changed_selects_quality
    [OF example_setup_runs example_wired_simps(1) h1, of "\<lambda>t. t"] t1 t2
  have a: "trace (ctx (fire (\<lambda>t. t) example_variantchanged example_wired)) =
       trace (ctx example_wired)
         @ [PlayerDispatch (DOMEvent ''shaka-variantchanged'' (EventDetail example_variantchanged) None),
            QualitiesSelect (Some example_quality) True
              (DOMEvent ''shaka-variantchanged'' (EventDetail example_variantchanged) None)]"
    by (simp add: s5 g k1)
  from C5_variant_changed_selects_quality
    [OF example_setup_runs example_wired_simps(1) h2, of "\<lambda>t. t"] t3
  have b: "trace (ctx (fire (\<lambda>t. t) example_adaptation example_wired)) =
       trace (ctx example_wired)
         @ [PlayerDispatch (DOMEvent ''shaka-adaptation'' (EventDetail example_adaptation) None)]"
    by (simp add: k2)
  from h1 t1 t2 t3 a b show ?thesis by blast
qed

text \<open>
  C6. When the host qualities list emits \<^verbatim>\<open>change\<close> with an instance, auto off and a
  quality selected, the controller configures \<^verbatim>\<open>abr.enabled\<close> to false on the instance and
  calls \<^verbatim>\<open>selectVariantTrack\<close> with the first variant track whose id as a string is the
  selected quality's id, or selects nothing when no track matches; with no instance, auto
  on or nothing selected it does nothing. Setup installs the enable-auto hook, and enabling
  auto configures \<^verbatim>\<open>abr.enabled\<close> to true on the instance.
\<close>

theorem C6_user_quality_change_delegates:
  assumes "qualities_change_listeners (ctx c0) = 0"
    and "ShakaController_setup en ctor c0 = Done c1"
    and "qualities_change_listeners (ctx c) = qualities_change_listeners (ctx c1)"
  shows "(\<forall>p q. shaka_instance c = Some (IsPlayer p) \<longrightarrow> \<not> qualities_auto (ctx c) \<longrightarrow>
                 qualities_selected (ctx c) = Some q \<longrightarrow>
            trace (ctx (qualities_change c)) =
              trace (ctx c)
                @ Configure (player_id p) [(''abr'', ConfigObject [(''enabled'', ConfigBool False)])]
                # (case find (\<lambda>t. optional_toString (track_id t) = JsVal (quality_id q))
                          (getVariantTracks p) of
                     None \<Rightarrow> []
                   | Some t \<Rightarrow> [SelectVariantTrack (player_id p) t]))
       \<and> (shaka_instance c = None \<or> qualities_auto (ctx c) \<or> qualities_selected (ctx c) = None
            \<longrightarrow> qualities_change c = c)
       \<and> qualities_enableAuto (ctx c1)
       \<and> (\<forall>p. shaka_instance c = Some (IsPlayer p) \<longrightarrow>
            enableAutoQuality c =
              Inr (call (Configure (player_id p)
                           [(''abr'', ConfigObject [(''enabled'', ConfigBool True)])]) c))"
proof -
  have one: "qualities_change c = run_change_listener c"
    using assms by (simp add: qualities_change_def setup_Done(6) [OF assms(2)])
  have a: "trace (ctx (qualities_change c)) =
              trace (ctx c)
                @ Configure (player_id p) [(''abr'', ConfigObject [(''enabled'', ConfigBool False)])]
                # (case find (\<lambda>t. optional_toString (track_id t) = JsVal (quality_id q))
                          (getVariantTracks p) of
                     None \<Rightarrow> []
                   | Some t \<Rightarrow> [SelectVariantTrack (player_id p) t])"
    if "shaka_instance c = Some (IsPlayer p)" "\<not> qualities_auto (ctx c)"
      "qualities_selected (ctx c) = Some q"
    for p q
    using onUserQualityChange_player [OF that]
    by (auto simp add: one run_change_listener_def abr_config_def)
  have b: "qualities_change c = c"
    if "shaka_instance c = None \<or> qualities_auto (ctx c) \<or> qualities_selected (ctx c) = None"
    using onUserQualityChange_none [OF that] by (simp add: one run_change_listener_def)
  have d: "enableAutoQuality c =
              Inr (call (Configure (player_id p)
                           [(''abr'', ConfigObject [(''enabled'', ConfigBool True)])]) c)"
    if "shaka_instance c = Some (IsPlayer p)" for p
    using that by (simp add: enableAutoQuality_def abr_config_def)
  from a b d show ?thesis by (simp add: setup_Done(6) [OF assms(2)])
qed

theorem C6_witness:
  "qualities_change_listeners (ctx example_controller) = 0
   \<and> \<not> qualities_auto (ctx example_wired)
   \<and> qualities_selected (ctx example_wired) = Some example_quality
   \<and> trace (ctx (qualities_change example_wired)) =
       trace (ctx example_wired)
         @ [Configure 0 [(''abr'', ConfigObject [(''enabled'', ConfigBool False)])],
            SelectVariantTrack 0 (example_track (JsVal 5) (JsVal 720))]
   \<and> qualities_change (example_wired\<lparr>shaka_instance := None\<rparr>)
       = example_wired\<lparr>shaka_instance := None\<rparr>
   \<and> enableAutoQuality example_wired =
       Inr (call (Configure 0 [(''abr'', ConfigObject [(''enabled'', ConfigBool True)])])
              example_wired)"
proof -
  have h0: "qualities_change_listeners (ctx example_controller) = 0"
    by (simp add: example_controller_def ShakaController_new_def example_context_def)
  have h1: "qualities_change_listeners (ctx example_wired) =
           qualities_change_listeners
             (ctx (state_of (ShakaController_setup example_env (ShakaConstructor 1) example_controller)))"
    by (simp add: example_wired_def)
  have h2: "qualities_change_listeners (ctx (example_wired\<lparr>shaka_instance := None\<rparr>)) =
           qualities_change_listeners
             (ctx (state_of (ShakaController_setup example_env (ShakaConstructor 1) example_controller)))"
    by (simp add: example_wired_def)
  have a: "\<not> qualities_auto (ctx example_wired)"
    by (rule example_wired_ctx(2))
  have s: "qualities_selected (ctx example_wired) = Some example_quality"
    by (rule example_wired_ctx(3))
  have s5: "toString 5 = ''5''"
    by (simp add: toString_def string_of_nat.simps digit_char_def)
  have f: "find (\<lambda>t. optional_toString (track_id t) = JsVal (quality_id example_quality))
             example_tracks = Some (example_track (JsVal 5) (JsVal 720))"
    by (simp add: example_tracks_def example_track_def example_quality_def s5)
  from C6_user_quality_change_delegates [OF h0 example_setup_runs h1] example_wired_simps(2) a s f
  have r1: "trace (ctx (qualities_change example_wired)) =
       trace (ctx example_wired)
         @ [Configure 0 [(''abr'', ConfigObject [(''enabled'', ConfigBool False)])],
            SelectVariantTrack 0 (example_track (JsVal 5) (JsVal 720))]"
    by simp
  from C6_user_quality_change_delegates [OF h0 example_setup_runs h2]
  have r2: "qualities_change (example_wired\<lparr>shaka_instance := None\<rparr>)
       = example_wired\<lparr>shaka_instance := None\<rparr>"
    by simp
  from C6_user_quality_change_delegates [OF h0 example_setup_runs h1] example_wired_simps(2)
  have r3: "enableAutoQuality example_wired =
       Inr (call (Configure 0 [(''abr'', ConfigObject [(''enabled'', ConfigBool True)])])
              example_wired)"
    by simp
  from h0 a s r1 r2 r3 show ?thesis by blast
qed



text \<open>
  C8. Server-side, \<^verbatim>\<open>load\<close> throws the error with the message
  \<^verbatim>\<open>[vidstack] can not load shaka provider server-side\<close> and builds no provider; a provider
  is returned only when not server-side, and it is then the one built from the loader's
  target and the context.
\<close>

theorem C8_load_throws_server_side:
  "(SERVER e \<longrightarrow>
      load e target context =
        Inl (ThrownError (JsError ''Error'' ''[vidstack] can not load shaka provider server-side'')))
   \<and> (\<forall>p. load e target context = Inr p \<longrightarrow>
          \<not> SERVER e \<and> p = ShakaProvider_new e target context)"
  by (simp add: load_def server_side_error_def split: option.splits)

theorem C8_witness:
  "SERVER (example_env\<lparr>SERVER := True\<rparr>)
   \<and> load (example_env\<lparr>SERVER := True\<rparr>) (Some 7) example_context =
        Inl (ThrownError (JsError ''Error'' ''[vidstack] can not load shaka provider server-side''))
   \<and> load example_env (Some 7) example_context =
        Inr (ShakaProvider_new example_env (Some 7) example_context)
   \<and> \<not> SERVER example_env"
proof -
  have h1: "SERVER (example_env\<lparr>SERVER := True\<rparr>)" by simp
  have h2: "load example_env (Some 7) example_context =
        Inr (ShakaProvider_new example_env (Some 7) example_context)"
    by (simp add: load_def example_env_def)
  from C8_load_throws_server_side [of "example_env\<lparr>SERVER := True\<rparr>" "Some 7" example_context] h1
  have a: "load (example_env\<lparr>SERVER := True\<rparr>) (Some 7) example_context =
        Inl (ThrownError (JsError ''Error'' ''[vidstack] can not load shaka provider server-side''))"
    by simp
  from C8_load_throws_server_side [of example_env "Some 7" example_context] h2
  have b: "\<not> SERVER example_env" by simp
  from h1 h2 a b show ?thesis by blast
qed

text \<open>
  C9. \<^verbatim>\<open>canPlay\<close> is true only where \<^verbatim>\<open>isHLSSupported()\<close> is: without HLS support every
  source, a DASH source too, is rejected. The loader's \<open>supported\<close> implies the provider's,
  and where only DASH is supported the provider's holds and the loader's does not.
\<close>

theorem C9_canPlay_needs_hls_support:
  "(canPlay e isHLSSrc isDASHSrc s \<longrightarrow> isHLSSupported e)
   \<and> (\<not> isHLSSupported e \<longrightarrow> \<not> canPlay e isHLSSrc isDASHSrc s)
   \<and> (ShakaProviderLoader_supported e \<longrightarrow> ShakaProvider_supported e)
   \<and> (isDASHSupported e \<and> \<not> isHLSSupported e \<longrightarrow>
        ShakaProvider_supported e \<and> \<not> ShakaProviderLoader_supported e)"
  by (simp add: canPlay_def ShakaProviderLoader_supported_def ShakaProvider_supported_def)

theorem C9_witness:
  "isDASHSupported example_env \<and> \<not> isHLSSupported example_env
   \<and> ShakaProvider_supported example_env
   \<and> \<not> canPlay example_env (\<lambda>s. src_type s = ''application/x-mpegurl'')
         (\<lambda>s. src_type s = ''application/dash+xml'') example_dash
   \<and> isHLSSupported (example_env\<lparr>isHLSSupported := True\<rparr>)
   \<and> canPlay (example_env\<lparr>isHLSSupported := True\<rparr>) (\<lambda>s. src_type s = ''application/x-mpegurl'')
         (\<lambda>s. src_type s = ''application/dash+xml'') example_dash"
proof -
  have h1: "isDASHSupported example_env \<and> \<not> isHLSSupported example_env"
    by (simp add: example_env_def)
  have h2: "canPlay (example_env\<lparr>isHLSSupported := True\<rparr>) (\<lambda>s. src_type s = ''application/x-mpegurl'')
         (\<lambda>s. src_type s = ''application/dash+xml'') example_dash"
    by (simp add: canPlay_def ShakaProviderLoader_supported_def example_dash_def)
  from C9_canPlay_needs_hls_support [of example_env "\<lambda>s. src_type s = ''application/x-mpegurl''"
      "\<lambda>s. src_type s = ''application/dash+xml''" example_dash] h1
  have a: "ShakaProvider_supported example_env"
    and b: "\<not> canPlay example_env (\<lambda>s. src_type s = ''application/x-mpegurl'')
         (\<lambda>s. src_type s = ''application/dash+xml'') example_dash"
    by simp_all
  from C9_canPlay_needs_hls_support [of "example_env\<lparr>isHLSSupported := True\<rparr>"
      "\<lambda>s. src_type s = ''application/x-mpegurl''"
      "\<lambda>s. src_type s = ''application/dash+xml''" example_dash] h2
  have c: "isHLSSupported (example_env\<lparr>isHLSSupported := True\<rparr>)" by simp
  from h1 h2 a b c show ?thesis by blast
qed

text \<open>
  C10, where the code departs from it. With the default library loading well and
  \<^verbatim>\<open>isBrowserSupported()\<close> false, the success callback has run by the time the support check
  is made: the player instance is constructed, attached and configured, and only then are
  \<^verbatim>\<open>shaka-unsupported\<close> and the error of code 4 sent. (On a failed load the callback is not
  run: \<open>provider_setup_failed\<close>.)
\<close>

theorem C10_unsupported_still_sets_up:
  "trace (ctx (controller
      (ShakaProvider_setup (example_env\<lparr>window_shaka := PlayerFunction (ShakaConstructor 1) False\<rparr>)
         example_provider))) =
     [SuperSetup,
      PlayerDispatch (DOMEvent ''shaka-lib-load-start'' NoDetail None),
      PlayerDispatch (DOMEvent ''shaka-lib-loaded'' (CtorDetail (ShakaConstructor 1)) None),
      PolyfillInstallAll,
      New (ShakaConstructor 1) 0,
      InstanceCallback 3 0,
      InstanceCallback 4 0,
      Attach 0 (Some 7),
      PlayerDispatch (DOMEvent ''shaka-instance'' (InstanceDetail 0) None),
      Configure 0 example_config,
      Notify ''provider-setup'' ProviderSetup None,
      PlayerDispatch (DOMEvent ''shaka-unsupported'' NoDetail None),
      Notify ''error''
        (MediaError ''[vidstack] `shaka-player` is not supported in this environment'' 4 None) None]
   \<and> shaka_instance (controller
      (ShakaProvider_setup (example_env\<lparr>window_shaka := PlayerFunction (ShakaConstructor 1) False\<rparr>)
         example_provider)) =
     Some (IsPlayer \<lparr>player_id = 0, player_ctor = ShakaConstructor 1, getVariantTracks = [],
                     getMediaElement = None\<rparr>)"
proof -
  have h: "spec_resolve (example_env\<lparr>window_shaka := PlayerFunction (ShakaConstructor 1) False\<rparr>)
             (provider_library example_provider) = Some (ShakaConstructor 1)"
    by (simp add: example_provider_simps spec_resolve_def example_env_def)
  have g: "window_shaka (example_env\<lparr>window_shaka := PlayerFunction (ShakaConstructor 1) False\<rparr>)
             \<noteq> ShakaMissing"
    by simp
  have n: "new_result (example_env\<lparr>window_shaka := PlayerFunction (ShakaConstructor 1) False\<rparr>)
             (ShakaConstructor 1) = NewPlayer"
    by (simp add: example_env_def)
  from provider_setup_resolved(1,2) [OF h g n] show ?thesis
    by (simp add: example_provider_simps source_calls_def unsupported_calls_def
        unsupported_message_def)
qed

end
